theory Spec2Isabelle
  imports Main "HOL-Library.Word" "HOL-Library.Char_ord" "HOL-Library.List_Lexorder"
begin

unbundle bit_operations_syntax

section \<open>Go values used by the IPAM controller\<close>

text \<open>
  \<open>uint32\<close> is a 32-bit word: \<open>+\<close>, \<open>-\<close> and \<open>*\<close> wrap around as in Go.
  \<open>net.IP\<close> is a byte slice; the \<open>nil\<close> slice is the empty list (the controller
  never builds an empty slice that is not \<open>nil\<close>).
\<close>

type_synonym uint32 = "32 word"
type_synonym IP = "8 word list"

definition v4InV6Prefix :: IP where
  "v4InV6Prefix = [0, 0, 0, 0, 0, 0, 0, 0, 0, 0, 0xff, 0xff]"

text \<open>\<open>net.IPv4(a, b, c, d)\<close>: the 16-byte form of an IPv4 address.\<close>

definition IPv4 :: "8 word \<Rightarrow> 8 word \<Rightarrow> 8 word \<Rightarrow> 8 word \<Rightarrow> IP" where
  "IPv4 a b c d = v4InV6Prefix @ [a, b, c, d]"

text \<open>\<open>ip.To4()\<close>: the 4-byte form, or \<open>nil\<close> when \<open>ip\<close> is not an IPv4 address.\<close>

definition To4 :: "IP \<Rightarrow> IP" where
  "To4 ip =
     (if length ip = 4 then ip
      else if length ip = 16 \<and> take 12 ip = v4InV6Prefix then drop 12 ip
      else [])"

subsection \<open>Decimal text: \<open>%d\<close>, \<open>strconv.ParseUint\<close>, \<open>strings.Split\<close>\<close>

definition digitChar :: "nat \<Rightarrow> char" where
  "digitChar d = ''0123456789'' ! d"

function FormatUint :: "nat \<Rightarrow> string" where
  "FormatUint n =
     (if n < 10 then [digitChar n] else FormatUint (n div 10) @ [digitChar (n mod 10)])"
  by pat_completeness auto
termination
  by (relation "measure id") auto

declare FormatUint.simps [simp del]

definition isDigit :: "char \<Rightarrow> bool" where
  "isDigit c = (48 \<le> (of_char c :: nat) \<and> (of_char c :: nat) \<le> 57)"

definition digitsValue :: "string \<Rightarrow> nat" where
  "digitsValue s = foldl (\<lambda>acc c. acc * 10 + ((of_char c :: nat) - 48)) 0 s"

text \<open>
  \<open>strconv.ParseUint(s, 10, bitSize)\<close>: \<open>None\<close> stands for any error (empty text, a
  character that is not a decimal digit, a value that does not fit \<open>bitSize\<close> bits).
\<close>

definition ParseUint :: "string \<Rightarrow> nat \<Rightarrow> nat option" where
  "ParseUint s bitSize =
     (if s = [] then None
      else if \<not> list_all isDigit s then None
      else if digitsValue s < 2 ^ bitSize then Some (digitsValue s) else None)"

fun Split :: "string \<Rightarrow> char \<Rightarrow> string list" where
  "Split [] sep = [[]]"
| "Split (c # cs) sep =
     (if c = sep then [] # Split cs sep
      else (case Split cs sep of [] \<Rightarrow> [[c]] | p # ps \<Rightarrow> (c # p) # ps))"

section \<open>Lock names\<close>

text \<open>
  \<open>IPv4ToUint32\<close> and \<open>makeIPLockName2\<close> index \<open>ip.To4()\<close>; on an address that is
  not IPv4 the index panics, which is the value \<open>None\<close>.
\<close>

definition IPv4ToUint32 :: "IP \<Rightarrow> uint32 option" where
  "IPv4ToUint32 ip =
     (case To4 ip of
        [b0, b1, b2, b3] \<Rightarrow>
          Some (push_bit 24 (ucast b0) + push_bit 16 (ucast b1) + push_bit 8 (ucast b2) + ucast b3)
      | _ \<Rightarrow> None)"

definition Uint32ToIPv4 :: "uint32 \<Rightarrow> IP" where
  "Uint32ToIPv4 i =
     IPv4 (ucast (drop_bit 24 i)) (ucast (drop_bit 16 i)) (ucast (drop_bit 8 i)) (ucast i)"

definition makeIPLockName2 :: "uint32 \<Rightarrow> IP \<Rightarrow> string option" where
  "makeIPLockName2 VNI ip =
     (case To4 ip of
        [b0, b1, b2, b3] \<Rightarrow>
          Some (''v1-'' @ FormatUint (unat VNI) @ ''-'' @ FormatUint (unat b0) @ ''-''
                @ FormatUint (unat b1) @ ''-'' @ FormatUint (unat b2) @ ''-''
                @ FormatUint (unat b3))
      | _ \<Rightarrow> None)"

datatype lockNameError = LockNameMalformed | VNIMalformed | AddrByteMalformed nat

text \<open>The loop over the four address tokens of \<open>parseIPLockName\<close>.\<close>

fun parseAddrBytes :: "string list \<Rightarrow> nat \<Rightarrow> uint32 \<Rightarrow> lockNameError + uint32" where
  "parseAddrBytes [] i addrU = Inr addrU"
| "parseAddrBytes (p # ps) i addrU =
     (case ParseUint p 8 of
        None \<Rightarrow> Inl (AddrByteMalformed i)
      | Some b64 \<Rightarrow> parseAddrBytes ps (Suc i) (addrU * 256 + of_nat b64))"

definition parseIPLockName :: "string \<Rightarrow> lockNameError + (uint32 \<times> uint32)" where
  "parseIPLockName lockName =
     (let parts = Split lockName CHR ''-'' in
      if length parts \<noteq> 6 \<or> parts ! 0 \<noteq> ''v1'' then Inl LockNameMalformed
      else
        (case ParseUint (parts ! 1) 21 of
           None \<Rightarrow> Inl VNIMalformed
         | Some vni64 \<Rightarrow>
             (case parseAddrBytes (take 4 (drop 2 parts)) 0 0 of
                Inl e \<Rightarrow> Inl e
              | Inr addrU \<Rightarrow> Inr (of_nat vni64, addrU))))"

section \<open>API objects\<close>

text \<open>
  A \<open>time.Time\<close> is a struct, and the code uses it in two ways. \<open>==\<close> and \<open>!=\<close> compare
  the struct: the wall-clock instant, the monotonic clock reading (a time taken from the
  running clock carries one, a time decoded from an API object or the zero time carries
  none) and the \<open>Location\<close> pointer (0 is nil, which the zero time has). \<open>Before\<close> compares
  the monotonic readings when both times carry one, and the wall-clock instants otherwise;
  it never looks at the \<open>Location\<close>.
\<close>

record Time =
  wallInstant :: int
  monotonic :: "int option"
  location :: nat

definition zeroTime :: Time where
  "zeroTime = \<lparr>wallInstant = 0, monotonic = None, location = 0\<rparr>"

definition Before :: "Time \<Rightarrow> Time \<Rightarrow> bool" where
  "Before t u =
     (case (monotonic t, monotonic u) of
        (Some a, Some b) \<Rightarrow> a < b
      | _ \<Rightarrow> wallInstant t < wallInstant u)"

text \<open>
  The metadata every stored object carries, and the three kinds of object the controllers
  read.
\<close>

record OwnerReference =
  Kind :: string
  RefName :: string
  RefUID :: string
  Controller :: "bool option"

record ObjectMeta =
  Namespace :: string
  Name :: string
  UID :: string
  ResourceVersion :: string
  CreationTimestamp :: Time
  OwnerReferences :: "OwnerReference list"

record IPLock = ObjectMeta +
  SpecSubnetName :: string

record NetworkAttachment = ObjectMeta +
  SpecSubnet :: string
  StatusIPv4 :: string
  StatusAddressVNI :: uint32
  StatusLockUID :: string

record Subnet = ObjectMeta +
  SpecVNI :: uint32
  SpecIPv4 :: string

text \<open>\<open>OwningAttachments\<close> and \<open>GetOwner\<close>: the loops over the owner references.\<close>

definition OwningAttachments :: "'a ObjectMeta_scheme \<Rightarrow> string list" where
  "OwningAttachments obj =
     map RefName
       (filter (\<lambda>oref. Kind oref = ''NetworkAttachment'' \<and> Controller oref = Some True)
          (OwnerReferences obj))"

definition GetOwner :: "'a ObjectMeta_scheme \<Rightarrow> string \<Rightarrow> string \<times> string" where
  "GetOwner obj ownerKind =
     foldl (\<lambda>(name, uid) oref.
              if Kind oref = ownerKind \<and> Controller oref = Some True
              then (RefName oref, RefUID oref) else (name, uid))
       ([], []) (OwnerReferences obj)"

section \<open>Parsed locks\<close>

record ParsedLock =
  pl_ns :: string
  pl_name :: string
  VNI :: uint32
  addrU :: uint32
  pl_UID :: string
  CreationTime :: Time
  Obj :: "IPLock option"

definition zeroParsedLock :: ParsedLock where
  "zeroParsedLock =
     \<lparr>pl_ns = [], pl_name = [], VNI = 0, addrU = 0, pl_UID = [], CreationTime = zeroTime,
      Obj = None\<rparr>"

definition NewParsedLock :: "IPLock \<Rightarrow> lockNameError + ParsedLock" where
  "NewParsedLock ipl =
     (case parseIPLockName (Name ipl) of
        Inl e \<Rightarrow> Inl e
      | Inr (vni, a) \<Rightarrow>
          Inr \<lparr>pl_ns = Namespace ipl, pl_name = Name ipl, VNI = vni, addrU = a,
               pl_UID = UID ipl, CreationTime = CreationTimestamp ipl, Obj = Some ipl\<rparr>)"

definition GetIP :: "ParsedLock \<Rightarrow> IP" where
  "GetIP x = Uint32ToIPv4 (addrU x)"

definition Equal :: "ParsedLock \<Rightarrow> ParsedLock \<Rightarrow> bool" where
  "Equal x y \<longleftrightarrow>
     VNI x = VNI y \<and> pl_UID x = pl_UID y \<and> CreationTime x = CreationTime y \<and> addrU x = addrU y"

text \<open>
  \<open>strings.Compare\<close> orders strings bytewise and lexicographically, which is the order of
  \<open>string\<close> here. The creation times are compared as structs by \<open>!=\<close> and as instants by
  \<open>Before\<close>.
\<close>

definition IsBetterThan :: "ParsedLock \<Rightarrow> ParsedLock \<Rightarrow> bool" where
  "IsBetterThan x y =
     (if CreationTime x \<noteq> CreationTime y then Before (CreationTime x) (CreationTime y)
      else pl_UID x > pl_UID y)"

definition Best :: "ParsedLock list \<Rightarrow> ParsedLock" where
  "Best list =
     (case list of
        [] \<Rightarrow> zeroParsedLock
      | first # rest \<Rightarrow> foldl (\<lambda>ans elt. if IsBetterThan elt ans then elt else ans) first rest)"

definition Has :: "ParsedLock list \<Rightarrow> ParsedLock \<Rightarrow> bool" where
  "Has list elt = list_ex (\<lambda>x. Equal x elt) list"

definition AddFunc :: "ParsedLock list \<Rightarrow> ParsedLock \<Rightarrow> ParsedLock list \<times> bool" where
  "AddFunc list elt =
     (if list = [] then ([elt], True)
      else if list_ex (\<lambda>x. Equal x elt) list then (list, False)
      else (list @ [elt], True))"

fun AddListFunc :: "ParsedLock list \<Rightarrow> ParsedLock list \<Rightarrow> ParsedLock list \<times> bool" where
  "AddListFunc list [] = (list, False)"
| "AddListFunc list (elt # list2) =
     (let (with, diffHere) = AddFunc list elt;
          (with', diff) = AddListFunc with list2
      in (with', diffHere \<or> diff))"

text \<open>The loop of \<open>RemFunc\<close>: drop the first element equal to \<open>elt\<close>.\<close>

fun remFirst :: "ParsedLock list \<Rightarrow> ParsedLock \<Rightarrow> ParsedLock list \<times> bool" where
  "remFirst [] elt = ([], False)"
| "remFirst (x # xs) elt =
     (if Equal x elt then (xs, True)
      else (let (sans, diff) = remFirst xs elt in (x # sans, diff)))"

definition RemFunc :: "ParsedLock list \<Rightarrow> ParsedLock \<Rightarrow> ParsedLock list \<times> bool" where
  "RemFunc list elt =
     (if list = [] then ([], False)
      else if length list = 1 then (if Equal elt (list ! 0) then ([], True) else (list, False))
      else remFirst list elt)"

section \<open>The address cache\<close>

text \<open>
  Modelled from the spec: package \<open>uint32set\<close> (\<open>UInt32SetChooser\<close> with \<open>Add\<close>,
  \<open>Remove\<close>, \<open>IsEmpty\<close> and \<open>AddOneInRange\<close>) is not among the sources. The spec
  describes a set of addresses where \<open>Add\<close> and \<open>Remove\<close> report whether they changed
  the set and \<open>AddOneInRange(lo, hi)\<close> inserts and returns the lowest value of
  \<open>[lo, hi]\<close> that is free, or reports \<open>ok = false\<close> when none is.
\<close>

type_synonym UInt32Set = "uint32 set"

definition Add :: "UInt32Set \<Rightarrow> uint32 \<Rightarrow> UInt32Set \<times> bool" where
  "Add s x = (insert x s, x \<notin> s)"

definition Remove :: "UInt32Set \<Rightarrow> uint32 \<Rightarrow> UInt32Set \<times> bool" where
  "Remove s x = (s - {x}, x \<in> s)"

definition IsEmpty :: "UInt32Set \<Rightarrow> bool" where
  "IsEmpty s \<longleftrightarrow> s = {}"

function AddOneInRange :: "UInt32Set \<Rightarrow> uint32 \<Rightarrow> uint32 \<Rightarrow> UInt32Set \<times> uint32 \<times> bool" where
  "AddOneInRange s lo hi =
     (if hi < lo then (s, 0, False)
      else if lo \<notin> s then (insert lo s, lo, True)
      else if lo = hi then (s, 0, False)
      else AddOneInRange s (lo + 1) hi)"
  by pat_completeness auto
termination
proof (relation "measure (\<lambda>(s, lo, hi). unat hi - unat lo)")
  show "wf (measure (\<lambda>(s, lo, hi). unat hi - unat lo))" by simp
next
  fix s :: UInt32Set and lo hi :: uint32
  assume "\<not> hi < lo" and "lo \<noteq> hi"
  then have lt: "lo < hi" by simp
  then have "unat hi - unat (lo + 1) < unat hi - unat lo"
    by unat_arith
  then show "((s, lo + 1, hi), (s, lo, hi)) \<in> measure (\<lambda>(s, lo, hi). unat hi - unat lo)"
    by simp
qed

declare AddOneInRange.simps [simp del]

type_synonym addrCache = "uint32 \<rightharpoonup> UInt32Set"

text \<open>
  The three cache operations of the controller. The set found in the map is shared with
  the map, so a change of the set is a change of the map's entry.
\<close>

definition TakeAddress :: "addrCache \<Rightarrow> uint32 \<Rightarrow> uint32 \<Rightarrow> bool \<times> addrCache" where
  "TakeAddress cache vni a =
     (let addrs = (case cache vni of None \<Rightarrow> {} | Some s \<Rightarrow> s);
          (addrs', changed) = Add addrs a
      in (changed, cache(vni \<mapsto> addrs')))"

definition PickAddress :: "addrCache \<Rightarrow> uint32 \<Rightarrow> uint32 \<Rightarrow> uint32 \<Rightarrow> (uint32 \<times> bool) \<times> addrCache" where
  "PickAddress cache vni minU maxU =
     (let addrs = (case cache vni of None \<Rightarrow> {} | Some s \<Rightarrow> s);
          (addrs', a, ok) = AddOneInRange addrs minU maxU
      in ((a, ok), cache(vni \<mapsto> addrs')))"

definition ReleaseAddress :: "addrCache \<Rightarrow> uint32 \<Rightarrow> uint32 \<Rightarrow> bool \<times> addrCache" where
  "ReleaseAddress cache vni a =
     (case cache vni of
        None \<Rightarrow> (False, cache)
      | Some addrs \<Rightarrow>
          (let (addrs', changed) = Remove addrs a
           in if IsEmpty addrs' then (changed, cache(vni := None))
              else (changed, cache(vni \<mapsto> addrs'))))"

section \<open>The subnet validator's conflicts cache\<close>

text \<open>
  Modelled from the spec: package \<open>subnet\<close> (the type \<open>Summary\<close> and its method
  \<open>Contains\<close>) is not among the sources. The spec gives a summary as the namespaced
  name, the VNI and the bounds of the CIDR block, and describes the test
  \<open>!s.Contains(c.ownerSummary)\<close> of \<open>updateConflictsCache\<close> as "differs in CIDR".
\<close>

type_synonym NamespacedName = "string \<times> string"

record Summary =
  SumNamespacedName :: NamespacedName
  SumVNI :: uint32
  BaseU :: uint32
  LastU :: uint32

definition Contains :: "Summary \<Rightarrow> Summary \<Rightarrow> bool" where
  "Contains s1 s2 \<longleftrightarrow> BaseU s1 = BaseU s2 \<and> LastU s1 = LastU s2"

record conflictsCache =
  ownerSummary :: Summary
  rivals :: "NamespacedName list"

text \<open>
  \<open>updateConflictsCache\<close> returns the rivals to enqueue again and the new map. A \<open>nil\<close>
  slice and an empty one are both \<open>[]\<close>.
\<close>

definition updateConflictsCache ::
  "(NamespacedName \<rightharpoonup> conflictsCache) \<Rightarrow> Summary
     \<Rightarrow> NamespacedName list \<times> (NamespacedName \<rightharpoonup> conflictsCache)" where
  "updateConflictsCache conflicts s =
     (case conflicts (SumNamespacedName s) of
        None \<Rightarrow>
          ([], conflicts(SumNamespacedName s \<mapsto> \<lparr>ownerSummary = s, rivals = []\<rparr>))
      | Some c \<Rightarrow>
          (let (oldRivals, c1) =
                 (if SumVNI s \<noteq> SumVNI (ownerSummary c) \<or> \<not> Contains s (ownerSummary c)
                  then (rivals c, c\<lparr>rivals := []\<rparr>)
                  else ([], c))
           in (oldRivals, conflicts(SumNamespacedName s \<mapsto> c1\<lparr>ownerSummary := s\<rparr>))))"

section \<open>The API server and the controller's state\<close>

text \<open>
  An API error is what the controller observes of it: its classification by
  \<open>k8serrors\<close> and whether its lower-cased text contains \<open>invalid\<close>.
\<close>

datatype reason = NotFound | Gone | AlreadyExists | Invalid | Conflict | OtherReason

record apiError =
  reason :: reason
  mentionsInvalid :: bool

definition serverError :: "reason \<Rightarrow> apiError" where
  "serverError r = \<lparr>reason = r, mentionsInvalid = False\<rparr>"

text \<open>
  The object store is outside the controller; what it does to a request is its contract:
  names are unique in a namespace, a delete carries the UID it means as a precondition,
  an update is refused when the resource version has moved. The server answers one
  request per step: \<open>Fail e\<close> is a request that fails with \<open>e\<close> whatever the store
  holds (a fault, or the interference of another client); \<open>Serve u t\<close> is a request
  served from the store, where a created lock gets UID \<open>u\<close> and creation time \<open>t\<close>,
  and an updated attachment gets resource version \<open>u\<close>.
\<close>

datatype step = Fail apiError | Serve string Time

definition findLock :: "string \<Rightarrow> string \<Rightarrow> IPLock list \<Rightarrow> IPLock option" where
  "findLock ns nm ls = find (\<lambda>l. Namespace l = ns \<and> Name l = nm) ls"

definition serveGet :: "step \<Rightarrow> string \<Rightarrow> string \<Rightarrow> IPLock list \<Rightarrow> apiError + IPLock" where
  "serveGet s ns nm ls =
     (case s of
        Fail e \<Rightarrow> Inl e
      | Serve u t \<Rightarrow>
          (case findLock ns nm ls of None \<Rightarrow> Inl (serverError NotFound) | Some l \<Rightarrow> Inr l))"

definition serveCreate :: "step \<Rightarrow> IPLock \<Rightarrow> IPLock list \<Rightarrow> (apiError + IPLock) \<times> IPLock list" where
  "serveCreate s ipl ls =
     (case s of
        Fail e \<Rightarrow> (Inl e, ls)
      | Serve u t \<Rightarrow>
          (case findLock (Namespace ipl) (Name ipl) ls of
             Some l \<Rightarrow> (Inl (serverError AlreadyExists), ls)
           | None \<Rightarrow>
               (let ipl2 = ipl\<lparr>UID := u, CreationTimestamp := t\<rparr> in (Inr ipl2, ls @ [ipl2]))))"

text \<open>A delete carries the UID of the object it means as a precondition.\<close>

definition serveDelete ::
  "step \<Rightarrow> string \<Rightarrow> string \<Rightarrow> string \<Rightarrow> IPLock list \<Rightarrow> apiError option \<times> IPLock list" where
  "serveDelete s ns nm uid ls =
     (case s of
        Fail e \<Rightarrow> (Some e, ls)
      | Serve u t \<Rightarrow>
          (case findLock ns nm ls of
             None \<Rightarrow> (Some (serverError NotFound), ls)
           | Some l \<Rightarrow>
               if UID l \<noteq> uid then (Some (serverError Conflict), ls)
               else (None, filter (\<lambda>l. \<not> (Namespace l = ns \<and> Name l = nm)) ls)))"

definition serveUpdate ::
  "step \<Rightarrow> NetworkAttachment \<Rightarrow> (NamespacedName \<rightharpoonup> NetworkAttachment)
     \<Rightarrow> (apiError + NetworkAttachment) \<times> (NamespacedName \<rightharpoonup> NetworkAttachment)" where
  "serveUpdate s att2 as =
     (case s of
        Fail e \<Rightarrow> (Inl e, as)
      | Serve u t \<Rightarrow>
          (case as (Namespace att2, Name att2) of
             None \<Rightarrow> (Inl (serverError NotFound), as)
           | Some cur \<Rightarrow>
               if UID cur \<noteq> UID att2 \<or> ResourceVersion cur \<noteq> ResourceVersion att2
               then (Inl (serverError Conflict), as)
               else (let att3 = att2\<lparr>ResourceVersion := u\<rparr>
                     in (Inr att3, as((Namespace att2, Name att2) \<mapsto> att3)))))"

record NetworkAttachmentData =
  anticipatedIPv4 :: IP
  anticipatingResourceVersion :: string
  anticipatedResourceVersion :: string
  anticipationSubnetRV :: string

definition zeroNetworkAttachmentData :: NetworkAttachmentData where
  "zeroNetworkAttachmentData =
     \<lparr>anticipatedIPv4 = [], anticipatingResourceVersion = [],
      anticipatedResourceVersion = [], anticipationSubnetRV = []\<rparr>"

text \<open>
  The world of one worker: the server's store (\<open>locks\<close>, \<open>attachments\<close>), the
  controller's \<open>addrCache\<close> and \<open>atts\<close>, and \<open>deleteCalls\<close>, the arguments of the calls of
  \<open>deleteIPLockObject\<close> made so far.
\<close>

record world =
  locks :: "IPLock list"
  attachments :: "NamespacedName \<rightharpoonup> NetworkAttachment"
  addrCache :: addrCache
  atts :: "NamespacedName \<rightharpoonup> NetworkAttachmentData"
  deleteCalls :: "ParsedLock list"

text \<open>
  What the controller reads without a request: the three informer caches, and the two
  parsers of Go's \<open>net\<close> package, whose results are taken as they come.
\<close>

datatype 'a lookup = Found 'a | Missing | LookupError

record IPNet =
  netIP :: IP
  maskOnes :: nat
  maskBits :: nat

record env =
  ParseIP :: "string \<Rightarrow> IP"
  ParseCIDR :: "string \<Rightarrow> IPNet option"
  netattLister :: "string \<Rightarrow> string \<Rightarrow> NetworkAttachment lookup"
  subnetLister :: "string \<Rightarrow> string \<Rightarrow> Subnet lookup"
  lockIndexer :: "string \<Rightarrow> IPLock list option"

text \<open>
  A run ends with a result (\<open>Done\<close>), panics on an index out of range (\<open>Panic\<close>), or
  waits for an answer the script of the server does not hold (\<open>Stuck\<close>).
\<close>

datatype 'a run = Stuck | Panic | Done 'a

datatype ctlError =
    ErrNoAddress
  | ErrFetchLock apiError
  | ErrCacheIncoherence
  | ErrCreateLock apiError
  | ErrDeleteLock apiError
  | ErrUpdateStatus apiError

section \<open>The IPAM reconciler\<close>

text \<open>
  \<open>ip.String()\<close> and \<open>ip.Equal(x)\<close> of Go's \<open>net\<close> package. The controller prints
  IPv4 addresses only; the IPv6 text forms are left out.
\<close>

definition IPString :: "IP \<Rightarrow> string" where
  "IPString ip =
     (if ip = [] then ''<nil>''
      else (case To4 ip of
              [b0, b1, b2, b3] \<Rightarrow>
                FormatUint (unat b0) @ ''.'' @ FormatUint (unat b1) @ ''.''
                @ FormatUint (unat b2) @ ''.'' @ FormatUint (unat b3)
            | _ \<Rightarrow> ''?''))"


definition IPNetToBoundsU :: "IPNet \<Rightarrow> (uint32 \<times> uint32) option" where
  "IPNetToBoundsU ipNet =
     (case IPv4ToUint32 (netIP ipNet) of
        None \<Rightarrow> None
      | Some minU \<Rightarrow>
          (let delta = (ucast (push_bit (maskBits ipNet - maskOnes ipNet) (1 :: 64 word) - 1) :: uint32)
           in Some (minU, minU + delta)))"




text \<open>The values \<open>analyzeAndRelease\<close> returns.\<close>

record analysis =
  resSubnetName :: string
  resSubnetRV :: string
  desiredVNI :: uint32
  desiredBaseU :: uint32
  desiredLastU :: uint32
  lockInStatus :: ParsedLock
  lockForStatus :: ParsedLock
  resErr :: "ctlError option"
  resOk :: bool

definition initialAnalysis :: analysis where
  "initialAnalysis =
     \<lparr>resSubnetName = [], resSubnetRV = ''.'', desiredVNI = 0, desiredBaseU = 0,
      desiredLastU = 0, lockInStatus = zeroParsedLock, lockForStatus = zeroParsedLock,
      resErr = None, resOk = False\<rparr>"

text \<open>
  The lookup of the subnet (the block under \<open>if att != nil\<close>): it ends the analysis
  (\<open>SubnetStop\<close>: lister failure, missing subnet, malformed CIDR), panics on a CIDR that
  is not IPv4, or goes on.
\<close>

datatype subnetOutcome = SubnetStop analysis | SubnetPanic | SubnetGo analysis

definition fetchSubnet :: "env \<Rightarrow> string \<Rightarrow> NetworkAttachment option \<Rightarrow> subnetOutcome" where
  "fetchSubnet e ns att =
     (case att of
        None \<Rightarrow> SubnetGo initialAnalysis
      | Some a \<Rightarrow>
          (let r = initialAnalysis\<lparr>resSubnetName := SpecSubnet a\<rparr> in
           case subnetLister e ns (SpecSubnet a) of
             LookupError \<Rightarrow> SubnetStop r
           | Missing \<Rightarrow> SubnetStop r
           | Found subnet \<Rightarrow>
               (let r1 = r\<lparr>desiredVNI := SpecVNI subnet, resSubnetRV := ResourceVersion subnet\<rparr> in
                case ParseCIDR e (SpecIPv4 subnet) of
                  None \<Rightarrow> SubnetStop r1
                | Some ipNet \<Rightarrow>
                    (case IPNetToBoundsU ipNet of
                       None \<Rightarrow> SubnetPanic
                     | Some (baseU, lastU) \<Rightarrow>
                         SubnetGo (r1\<lparr>desiredBaseU := baseU, desiredLastU := lastU\<rparr>)))))"

text \<open>The variables the closure \<open>consider\<close> writes; the closure itself is \<open>consider'\<close>.\<close>

record bins =
  considered :: "uint32 set"
  timeSlippers :: "ParsedLock list"
  undesiredLocks :: "ParsedLock list"
  usableLocks :: "ParsedLock list"
  binLockInStatus :: ParsedLock

definition emptyBins :: bins where
  "emptyBins =
     \<lparr>considered = {}, timeSlippers = [], undesiredLocks = [], usableLocks = [],
      binLockInStatus = zeroParsedLock\<rparr>"

definition consider' :: "NetworkAttachment option \<Rightarrow> analysis \<Rightarrow> bins \<Rightarrow> IPLock \<Rightarrow> bins" where
  "consider' att r b ipl =
     (case NewParsedLock ipl of
        Inl parseErr \<Rightarrow> b
      | Inr parsed \<Rightarrow>
          (let b1 = b\<lparr>considered := insert (addrU parsed) (considered b)\<rparr>;
               ownerUID = snd (GetOwner ipl ''NetworkAttachment'')
           in if (case att of None \<Rightarrow> False | Some a \<Rightarrow> ownerUID \<noteq> UID a)
              then b1\<lparr>timeSlippers := timeSlippers b1 @ [parsed]\<rparr>
              else if VNI parsed \<noteq> desiredVNI r \<or> addrU parsed < desiredBaseU r
                      \<or> addrU parsed > desiredLastU r
              then b1\<lparr>undesiredLocks := undesiredLocks b1 @ [parsed]\<rparr>
              else
                (let b2 =
                       (if (case att of
                              None \<Rightarrow> False
                            | Some a \<Rightarrow>
                                pl_UID parsed = StatusLockUID a \<and> StatusIPv4 a \<noteq> []
                                \<and> StatusIPv4 a = IPString (GetIP parsed))
                        then b1\<lparr>binLockInStatus := parsed\<rparr> else b1)
                 in b2\<lparr>usableLocks := usableLocks b2 @ [parsed]\<rparr>)))"

text \<open>
  The block under \<open>if att != nil && att.Status.IPv4 != ""\<close>: when no lock considered so
  far has the address of the status, the lock of that address is fetched from the server.
\<close>

definition considerStatusIP ::
  "env \<Rightarrow> string \<Rightarrow> string \<Rightarrow> NetworkAttachment option \<Rightarrow> analysis \<Rightarrow> bins \<Rightarrow> step list
     \<Rightarrow> world \<Rightarrow> (bins \<times> step list) run" where
  "considerStatusIP e ns nm att r b sc w =
     (case att of
        None \<Rightarrow> Done (b, sc)
      | Some a \<Rightarrow>
          if StatusIPv4 a = [] then Done (b, sc)
          else
            (let statusIP = ParseIP e (StatusIPv4 a) in
             if statusIP = [] then Done (b, sc)
             else
               (case IPv4ToUint32 statusIP of
                  None \<Rightarrow> Panic
                | Some statusIPU \<Rightarrow>
                    if statusIPU \<in> considered b then Done (b, sc)
                    else
                      (case makeIPLockName2 (desiredVNI r) statusIP of
                         None \<Rightarrow> Panic
                       | Some antName \<Rightarrow>
                           (case sc of
                              [] \<Rightarrow> Stuck
                            | s # sc' \<Rightarrow>
                                (case serveGet s ns antName (locks w) of
                                   Inl getErr \<Rightarrow> Done (b, sc')
                                 | Inr ipl \<Rightarrow>
                                     if fst (GetOwner ipl ''NetworkAttachment'') = nm
                                     then Done (consider' att r b ipl, sc')
                                     else Done (b, sc')))))))"

text \<open>The invalidation of the anticipation, with the grouping Go gives the condition.\<close>

definition invalidateAnticipation ::
  "NetworkAttachment option \<Rightarrow> string \<Rightarrow> NetworkAttachmentData option
     \<Rightarrow> NetworkAttachmentData option" where
  "invalidateAnticipation att subnetRV nadat =
     (case nadat of
        None \<Rightarrow> None
      | Some d \<Rightarrow>
          if (case att of
                None \<Rightarrow> True
              | Some a \<Rightarrow>
                  anticipatingResourceVersion d \<noteq> ResourceVersion a
                  \<and> anticipatedResourceVersion d \<noteq> ResourceVersion a
                  \<or> anticipationSubnetRV d \<noteq> subnetRV)
          then Some zeroNetworkAttachmentData
          else Some d)"

text \<open>
  The choice of the lock to keep: the result is \<open>lockForStatus\<close> and the usable locks
  to release.
\<close>

definition chooseRelease :: "NetworkAttachment option \<Rightarrow> bins \<Rightarrow> ParsedLock \<times> ParsedLock list" where
  "chooseRelease att b =
     (if att = None then (zeroParsedLock, usableLocks b)
      else if Obj (binLockInStatus b) \<noteq> None
      then (zeroParsedLock, fst (RemFunc (usableLocks b) (binLockInStatus b)))
      else if length (usableLocks b) > 0
      then (Best (usableLocks b), fst (RemFunc (usableLocks b) (Best (usableLocks b))))
      else (zeroParsedLock, []))"

definition deleteIPLockObject :: "ParsedLock \<Rightarrow> step \<Rightarrow> world \<Rightarrow> apiError option \<times> world" where
  "deleteIPLockObject parsed s w =
     (let (r, ls) = serveDelete s (pl_ns parsed) (pl_name parsed) (pl_UID parsed) (locks w);
          w' = w\<lparr>locks := ls, deleteCalls := deleteCalls w @ [parsed]\<rparr>
      in case r of
           None \<Rightarrow> (None, w')
         | Some e \<Rightarrow> if reason e = NotFound \<or> reason e = Gone then (None, w') else (Some e, w'))"

text \<open>The loop over \<open>locksToRelease\<close>, which stops at the first failure.\<close>

fun releaseLocks ::
  "ParsedLock list \<Rightarrow> step list \<Rightarrow> world \<Rightarrow> (ctlError option \<times> step list \<times> world) run" where
  "releaseLocks [] sc w = Done (None, sc, w)"
| "releaseLocks (lockToRelease # rest) [] w = Stuck"
| "releaseLocks (lockToRelease # rest) (s # sc) w =
     (case deleteIPLockObject lockToRelease s w of
        (Some e, w') \<Rightarrow> Done (Some (ErrDeleteLock e), sc, w')
      | (None, w') \<Rightarrow> releaseLocks rest sc w')"

definition analyzeAndRelease ::
  "env \<Rightarrow> string \<Rightarrow> string \<Rightarrow> NetworkAttachment option \<Rightarrow> NetworkAttachmentData option
     \<Rightarrow> step list \<Rightarrow> world
     \<Rightarrow> ((analysis \<times> NetworkAttachmentData option) \<times> step list \<times> world) run" where
  "analyzeAndRelease e ns nm att nadat sc w =
     (case fetchSubnet e ns att of
        SubnetPanic \<Rightarrow> Panic
      | SubnetStop r \<Rightarrow> Done ((r, nadat), sc, w)
      | SubnetGo r \<Rightarrow>
          (case lockIndexer e nm of
             None \<Rightarrow> Done ((r, nadat), sc, w)
           | Some ownedObjs \<Rightarrow>
               (case considerStatusIP e ns nm att r (foldl (consider' att r) emptyBins ownedObjs) sc w of
                  Stuck \<Rightarrow> Stuck
                | Panic \<Rightarrow> Panic
                | Done (b, sc1) \<Rightarrow>
                    (let nadat' = invalidateAnticipation att (resSubnetRV r) nadat;
                         (forStatus, usableToRelease) = chooseRelease att b;
                         locksToRelease = fst (AddListFunc (undesiredLocks b) usableToRelease);
                         r1 = r\<lparr>lockInStatus := binLockInStatus b, lockForStatus := forStatus\<rparr>
                     in case releaseLocks locksToRelease sc1 w of
                          Stuck \<Rightarrow> Stuck
                        | Panic \<Rightarrow> Panic
                        | Done (None, sc2, w2) \<Rightarrow> Done ((r1\<lparr>resOk := True\<rparr>, nadat'), sc2, w2)
                        | Done (Some err, sc2, w2) \<Rightarrow>
                            Done ((r1\<lparr>resErr := Some err\<rparr>, nadat'), sc2, w2)))))"

text \<open>
  The loop of \<open>pickAndLockAddress\<close> around \<open>Create\<close>. \<open>lfs\<close> and \<open>ip\<close> are the results
  \<open>lockForStatus\<close> and \<open>ipForStatus\<close> as they stand when the loop starts; they are
  returned with every error.
\<close>

definition lockedBy :: "ParsedLock \<Rightarrow> IPLock \<Rightarrow> ParsedLock" where
  "lockedBy lfs ipl2 =
     lfs\<lparr>pl_UID := UID ipl2, CreationTime := CreationTimestamp ipl2, Obj := Some ipl2\<rparr>"

fun createLoop ::
  "string \<Rightarrow> NetworkAttachment \<Rightarrow> uint32 \<Rightarrow> uint32 \<Rightarrow> IPLock \<Rightarrow> ParsedLock \<Rightarrow> IP \<Rightarrow> step list
     \<Rightarrow> world \<Rightarrow> ((ParsedLock \<times> IP \<times> ctlError option) \<times> step list \<times> world) run" where
  "createLoop nm att vni ipForStatusU ipl lfs ip [] w = Stuck"
| "createLoop nm att vni ipForStatusU ipl lfs ip (s # sc) w =
     (case serveCreate s ipl (locks w) of
        (Inr ipl2, ls) \<Rightarrow> Done ((lockedBy lfs ipl2, ip, None), sc, w\<lparr>locks := ls\<rparr>)
      | (Inl err, ls) \<Rightarrow>
          if reason err = AlreadyExists then
            (case sc of
               [] \<Rightarrow> Stuck
             | g # sc' \<Rightarrow>
                 (case serveGet g (Namespace ipl) (Name ipl) (locks w) of
                    Inr ipl2 \<Rightarrow>
                      if GetOwner ipl2 ''NetworkAttachment'' = (nm, UID att)
                      then Done ((lockedBy lfs ipl2, ip, None), sc', w)
                      else Done ((lfs, ip, Some ErrCacheIncoherence), sc', w)
                  | Inl err2 \<Rightarrow>
                      if reason err2 = NotFound
                      then createLoop nm att vni ipForStatusU ipl lfs ip sc' w
                      else Done ((lfs, ip, Some (ErrFetchLock err2)), sc', w)))
          else
            (let (releaseOK, cache) = ReleaseAddress (addrCache w) vni ipForStatusU;
                 w' = w\<lparr>addrCache := cache\<rparr>
             in if reason err = Invalid \<or> mentionsInvalid err
                then Done ((lfs, ip, None), sc, w')
                else Done ((lfs, ip, Some (ErrCreateLock err)), sc, w')))"

definition pickAndLockAddress ::
  "string \<Rightarrow> string \<Rightarrow> NetworkAttachment \<Rightarrow> string \<Rightarrow> uint32 \<Rightarrow> uint32 \<Rightarrow> uint32 \<Rightarrow> step list
     \<Rightarrow> world \<Rightarrow> ((ParsedLock \<times> IP \<times> ctlError option) \<times> step list \<times> world) run" where
  "pickAndLockAddress ns nm att subnetNm vni subnetBaseU subnetLastU sc w =
     (let (addrMin, addrMax) =
            (if subnetLastU - subnetBaseU \<ge> 4 then (subnetBaseU + 2, subnetLastU - 1)
             else (subnetBaseU, subnetLastU));
          ((ipForStatusU, ok), cache) = PickAddress (addrCache w) vni addrMin addrMax;
          w1 = w\<lparr>addrCache := cache\<rparr>
      in if \<not> ok then Done ((zeroParsedLock, [], Some ErrNoAddress), sc, w1)
         else
           (let ipForStatus = Uint32ToIPv4 ipForStatusU in
            case makeIPLockName2 vni ipForStatus of
              None \<Rightarrow> Panic
            | Some lockNm \<Rightarrow>
                (let lfs = \<lparr>pl_ns = ns, pl_name = lockNm, VNI = vni, addrU = ipForStatusU,
                            pl_UID = [], CreationTime = zeroTime, Obj = None\<rparr>;
                     ipl = \<lparr>Namespace = ns, Name = lockNm, UID = [], ResourceVersion = [],
                            CreationTimestamp = zeroTime,
                            OwnerReferences =
                              [\<lparr>Kind = ''NetworkAttachment'', RefName = nm, RefUID = UID att,
                                Controller = Some True\<rparr>],
                            SpecSubnetName = subnetNm\<rparr>
                 in createLoop nm att vni ipForStatusU ipl lfs ipForStatus sc w1)))"



section \<open>Predicates of the proofs\<close>

text \<open>
  Every lock of the two bins that feed the release set is the parsed form of an object
  whose controller owner has the given UID.
\<close>

definition ownedBins :: "string \<Rightarrow> bins \<Rightarrow> bool" where
  "ownedBins uid b \<longleftrightarrow>
     (\<forall>p \<in> set (undesiredLocks b) \<union> set (usableLocks b).
        \<exists>l. Obj p = Some l \<and> snd (GetOwner l ''NetworkAttachment'') = uid)"

text \<open>
  The conditions of the end-to-end invariant: a script whose requests are all served from
  the store, a lock with a well-formed name and at most one controller owner, the lock
  an attachment owns, the parsed form of a stored lock, and the test of \<open>consider\<close> for a
  lock of the desired VNI inside the block of the subnet.
\<close>

definition isServe :: "step \<Rightarrow> bool" where
  "isServe s = (case s of Serve u t \<Rightarrow> True | Fail e \<Rightarrow> False)"








section \<open>A scenario\<close>

text \<open>
  The times of the scenario are decoded from API objects: no monotonic reading, and the
  one \<open>Location\<close> the decoder gives. The subnet \<open>s1\<close> (VNI 7, block \<open>10.0.0.0/24\<close>)
  and the attachment \<open>a1\<close> of namespace \<open>ex\<close>; an environment whose informers hold the
  subnet, the given result of looking the attachment up and the given locks, and whose
  parsers know the two texts the scenario uses; and a world whose store holds the given
  attachment and locks.
\<close>

definition exTime :: "int \<Rightarrow> Time" where
  "exTime n = \<lparr>wallInstant = n, monotonic = None, location = 1\<rparr>"

definition exSubnet :: Subnet where
  "exSubnet =
     \<lparr>Namespace = ''ex'', Name = ''s1'', UID = ''subnet-1'', ResourceVersion = ''3'',
      CreationTimestamp = exTime 50, OwnerReferences = [], SpecVNI = 7, SpecIPv4 = ''10.0.0.0/24''\<rparr>"

definition exAttachment :: NetworkAttachment where
  "exAttachment =
     \<lparr>Namespace = ''ex'', Name = ''a1'', UID = ''att-1'', ResourceVersion = ''5'',
      CreationTimestamp = exTime 100, OwnerReferences = [], SpecSubnet = ''s1'', StatusIPv4 = [],
      StatusAddressVNI = 0, StatusLockUID = []\<rparr>"

definition exLock :: "string \<Rightarrow> string \<Rightarrow> string \<Rightarrow> int \<Rightarrow> IPLock" where
  "exLock lockNm uid ownerUID t =
     \<lparr>Namespace = ''ex'', Name = lockNm, UID = uid, ResourceVersion = ''1'',
      CreationTimestamp = exTime t,
      OwnerReferences =
        [\<lparr>Kind = ''NetworkAttachment'', RefName = ''a1'', RefUID = ownerUID,
          Controller = Some True\<rparr>],
      SpecSubnetName = ''s1''\<rparr>"

definition exEnv :: "NetworkAttachment lookup \<Rightarrow> IPLock list \<Rightarrow> env" where
  "exEnv found owned =
     \<lparr>ParseIP = (\<lambda>s. if s = ''10.0.0.5'' then IPv4 10 0 0 5 else []),
      ParseCIDR =
        (\<lambda>s. if s = ''10.0.0.0/24''
             then Some \<lparr>netIP = [10, 0, 0, 0], maskOnes = 24, maskBits = 32\<rparr> else None),
      netattLister = (\<lambda>ns nm. if ns = ''ex'' \<and> nm = ''a1'' then found else Missing),
      subnetLister = (\<lambda>ns nm. if ns = ''ex'' \<and> nm = ''s1'' then Found exSubnet else Missing),
      lockIndexer = (\<lambda>nm. Some (filter (\<lambda>l. nm \<in> set (OwningAttachments l)) owned))\<rparr>"

definition exWorld :: "NetworkAttachment \<Rightarrow> IPLock list \<Rightarrow> world" where
  "exWorld a ls =
     \<lparr>locks = ls, attachments = [(''ex'', ''a1'') \<mapsto> a], addrCache = Map.empty,
      atts = Map.empty, deleteCalls = []\<rparr>"

section \<open>Lock names: encoding and decoding\<close>

lemma less_10_cases:
  fixes k :: nat
  assumes "k < 10"
  shows "k = 0 \<or> k = 1 \<or> k = 2 \<or> k = 3 \<or> k = 4 \<or> k = 5 \<or> k = 6 \<or> k = 7 \<or> k = 8 \<or> k = 9"
  using assms by arith

lemma digitChar_isDigit: "k < 10 \<Longrightarrow> isDigit (digitChar k)"
  using less_10_cases [of k] by (auto simp: isDigit_def digitChar_def)

lemma digitChar_value: "k < 10 \<Longrightarrow> (of_char (digitChar k) :: nat) - 48 = k"
  using less_10_cases [of k] by (auto simp: digitChar_def)

lemma FormatUint_digits: "list_all isDigit (FormatUint n)"
proof (induction n rule: FormatUint.induct)
  case (1 n)
  have d: "\<And>k. k < 10 \<Longrightarrow> isDigit (digitChar k)"
    by (rule digitChar_isDigit)
  show ?case
  proof (cases "n < 10")
    case True
    then show ?thesis by (subst FormatUint.simps) (simp add: d)
  next
    case False
    then show ?thesis using 1 by (subst FormatUint.simps) (simp add: d)
  qed
qed

lemma FormatUint_nonempty: "FormatUint n \<noteq> []"
  by (subst FormatUint.simps) simp

lemma digitsValue_snoc: "digitsValue (s @ [c]) = digitsValue s * 10 + ((of_char c :: nat) - 48)"
  by (simp add: digitsValue_def)

lemma digitsValue_FormatUint: "digitsValue (FormatUint n) = n"
proof (induction n rule: FormatUint.induct)
  case (1 n)
  have d: "\<And>k. k < 10 \<Longrightarrow> (of_char (digitChar k) :: nat) - 48 = k"
    by (rule digitChar_value)
  show ?case
  proof (cases "n < 10")
    case True
    then show ?thesis by (subst FormatUint.simps) (simp add: d digitsValue_def)
  next
    case False
    then show ?thesis using 1 by (subst FormatUint.simps) (simp add: d digitsValue_snoc)
  qed
qed

lemma ParseUint_FormatUint:
  "ParseUint (FormatUint n) bits = (if n < 2 ^ bits then Some n else None)"
  by (simp add: ParseUint_def FormatUint_nonempty FormatUint_digits digitsValue_FormatUint)

lemma dash_not_digit: "list_all isDigit s \<Longrightarrow> CHR ''-'' \<notin> set s"
  by (auto simp: list_all_iff isDigit_def)

lemma Split_nosep: "sep \<notin> set a \<Longrightarrow> Split a sep = [a]"
  by (induction a) auto

lemma Split_append: "sep \<notin> set a \<Longrightarrow> Split (a @ sep # rest) sep = a # Split rest sep"
  by (induction a) auto

lemma unat8_lt: "unat (b :: 8 word) < 256"
  using unsigned_less [of b] by simp

lemma word_assemble:
  "((((0::uint32) * 256 + of_nat (unat (b0::8 word))) * 256 + of_nat (unat (b1::8 word))) * 256
      + of_nat (unat (b2::8 word))) * 256 + of_nat (unat (b3::8 word))
   = push_bit 24 (ucast b0) + push_bit 16 (ucast b1) + push_bit 8 (ucast b2) + ucast b3"
  by (simp add: push_bit_eq_mult algebra_simps)

lemma name_parts:
  "Split (''v1-'' @ FormatUint v @ ''-'' @ FormatUint a @ ''-'' @ FormatUint b @ ''-''
          @ FormatUint c @ ''-'' @ FormatUint d) CHR ''-''
   = [''v1'', FormatUint v, FormatUint a, FormatUint b, FormatUint c, FormatUint d]"
proof -
  have nd: "\<And>n. CHR ''-'' \<notin> set (FormatUint n)"
    by (rule dash_not_digit [OF FormatUint_digits])
  have v1: "CHR ''-'' \<notin> set ''v1''" by simp
  have "Split (''v1'' @ CHR ''-'' # (FormatUint v @ CHR ''-'' # (FormatUint a @ CHR ''-'' #
          (FormatUint b @ CHR ''-'' # (FormatUint c @ CHR ''-'' # FormatUint d))))) CHR ''-''
        = [''v1'', FormatUint v, FormatUint a, FormatUint b, FormatUint c, FormatUint d]"
    by (simp only: Split_append [OF v1] Split_append [OF nd] Split_nosep [OF nd])
  then show ?thesis by simp
qed

lemma parse_make:
  assumes "length ip = 4"
  shows "\<exists>name a. makeIPLockName2 v ip = Some name \<and> IPv4ToUint32 ip = Some a
           \<and> parseIPLockName name = (if unat v < 2 ^ 21 then Inr (v, a) else Inl VNIMalformed)"
proof -
  from assms obtain b0 b1 b2 b3 where ip: "ip = [b0, b1, b2, b3]"
    by (cases ip; simp; rename_tac x xs; case_tac xs; simp; rename_tac y ys; case_tac ys; simp;
        rename_tac z zs; case_tac zs; simp)
  define name where "name = ''v1-'' @ FormatUint (unat v) @ ''-'' @ FormatUint (unat b0) @ ''-''
                @ FormatUint (unat b1) @ ''-'' @ FormatUint (unat b2) @ ''-''
                @ FormatUint (unat b3)"
  have mk: "makeIPLockName2 v ip = Some name"
    by (simp add: makeIPLockName2_def To4_def ip name_def)
  have sp: "Split name CHR ''-'' = [''v1'', FormatUint (unat v), FormatUint (unat b0),
              FormatUint (unat b1), FormatUint (unat b2), FormatUint (unat b3)]"
    unfolding name_def by (rule name_parts)
  have u: "IPv4ToUint32 ip = Some (push_bit 24 (ucast b0) + push_bit 16 (ucast b1) + push_bit 8 (ucast b2) + ucast b3)"
    by (simp add: IPv4ToUint32_def To4_def ip)
  have by8: "\<And>b :: 8 word. unat b < 256" by (rule unat8_lt)
  have pb: "parseAddrBytes [FormatUint (unat b0), FormatUint (unat b1), FormatUint (unat b2), FormatUint (unat b3)] 0 0
      = Inr (push_bit 24 (ucast b0) + push_bit 16 (ucast b1) + push_bit 8 (ucast b2) + ucast b3)"
    by (simp add: ParseUint_FormatUint by8 word_assemble [symmetric] del: of_nat_unat)
  have pn: "parseIPLockName name = (if unat v < 2 ^ 21 then Inr (v, push_bit 24 (ucast b0) + push_bit 16 (ucast b1) + push_bit 8 (ucast b2) + ucast b3) else Inl VNIMalformed)"
    by (simp add: parseIPLockName_def sp ParseUint_FormatUint pb Let_def del: parseAddrBytes.simps)
  show ?thesis
    using mk u pn by simp
qed

lemma unat_assemble:
  "unat (push_bit 24 (ucast (b0::8 word)) + push_bit 16 (ucast (b1::8 word)) + push_bit 8 (ucast (b2::8 word)) + (ucast (b3::8 word) :: uint32))
   = unat b0 * 16777216 + unat b1 * 65536 + unat b2 * 256 + unat b3"
proof -
  have e: "push_bit 24 (ucast b0) + push_bit 16 (ucast b1) + push_bit 8 (ucast b2) + (ucast b3 :: uint32)
        = of_nat (unat b0 * 16777216 + unat b1 * 65536 + unat b2 * 256 + unat b3)"
    by (simp add: push_bit_eq_mult)
  have "unat b0 * 16777216 + unat b1 * 65536 + unat b2 * 256 + unat b3 < 2 ^ 32"
    using unat8_lt [of b0] unat8_lt [of b1] unat8_lt [of b2] unat8_lt [of b3] by simp
  then show ?thesis
    using of_nat_inverse [OF e [symmetric]] by simp
qed

lemma div_mod_byte:
  fixes x :: nat
  assumes "l < m" "x < 256"
  shows "((h * 256 + x) * m + l) div m mod 256 = x"
proof -
  have "((h * 256 + x) * m + l) div m = h * 256 + x"
    using assms(1) by simp
  then show ?thesis using assms(2) by simp
qed

lemma ucast_drop_byte:
  fixes a :: uint32 and b :: "8 word"
  assumes "(unat a div 2 ^ k) mod 256 = unat b"
  shows "ucast (drop_bit k a) = b"
proof -
  have "unat (ucast (drop_bit k a) :: 8 word) = unat b"
    using assms by (simp add: unsigned_ucast_eq take_bit_eq_mod unat_drop_bit_eq drop_bit_nat_def)
  then show ?thesis by (simp add: word_unat_eq_iff)
qed

lemma To4_Uint32ToIPv4:
  "To4 (Uint32ToIPv4 (push_bit 24 (ucast (b0::8 word)) + push_bit 16 (ucast (b1::8 word)) + push_bit 8 (ucast (b2::8 word)) + ucast (b3::8 word)))
   = [b0, b1, b2, b3]"
proof -
  let ?a = "push_bit 24 (ucast b0) + push_bit 16 (ucast b1) + push_bit 8 (ucast b2) + (ucast b3 :: uint32)"
  have b: "unat b0 < 256" "unat b1 < 256" "unat b2 < 256" "unat b3 < 256"
    by (rule unat8_lt)+
  have n: "unat ?a = unat b0 * 16777216 + unat b1 * 65536 + unat b2 * 256 + unat b3"
    by (rule unat_assemble)
  have "unat ?a = ((0 * 256 + unat b0) * 2 ^ 24 + (unat b1 * 65536 + unat b2 * 256 + unat b3))"
    by (simp add: n)
  then have "(unat ?a div 2 ^ 24) mod 256 = unat b0"
    using div_mod_byte [of "unat b1 * 65536 + unat b2 * 256 + unat b3" "2 ^ 24" "unat b0" 0] b
    by simp
  then have "ucast (drop_bit 24 ?a) = b0"
    by (rule ucast_drop_byte)
  moreover
  have "unat ?a = ((unat b0 * 256 + unat b1) * 2 ^ 16 + (unat b2 * 256 + unat b3))"
    by (simp add: n)
  then have "(unat ?a div 2 ^ 16) mod 256 = unat b1"
    using div_mod_byte [of "unat b2 * 256 + unat b3" "2 ^ 16" "unat b1" "unat b0"] b
    by simp
  then have "ucast (drop_bit 16 ?a) = b1"
    by (rule ucast_drop_byte)
  moreover
  have "unat ?a = (((unat b0 * 256 + unat b1) * 256 + unat b2) * 2 ^ 8 + unat b3)"
    by (simp add: n)
  then have "(unat ?a div 2 ^ 8) mod 256 = unat b2"
    using div_mod_byte [of "unat b3" "2 ^ 8" "unat b2" "unat b0 * 256 + unat b1"] b
    by simp
  then have "ucast (drop_bit 8 ?a) = b2"
    by (rule ucast_drop_byte)
  moreover
  have "unat ?a = (((unat b0 * 256 + unat b1) * 256 + unat b2) * 256 + unat b3) * 1 + 0"
    by (simp add: n)
  then have "(unat ?a div 2 ^ 0) mod 256 = unat b3"
    using div_mod_byte [of 0 1 "unat b3" "(unat b0 * 256 + unat b1) * 256 + unat b2"] b
    by simp
  then have "ucast (drop_bit 0 ?a) = b3"
    by (rule ucast_drop_byte)
  ultimately show ?thesis
    by (simp add: To4_def Uint32ToIPv4_def IPv4_def v4InV6Prefix_def)
qed

text \<open>
  C6: for every VNI \<open>v \<le> 2\<^sup>2\<^sup>1 - 1\<close> and every 4-octet address \<open>ip\<close>,
  \<open>parseIPLockName\<close> applied to \<open>makeIPLockName2 v ip\<close> returns \<open>v\<close> and the number of
  \<open>ip\<close> (which \<open>Uint32ToIPv4\<close> turns back into \<open>ip\<close>) with no error; and the name
  encoded for the VNI \<open>2\<^sup>2\<^sup>1\<close> is rejected with an error.
\<close>

theorem lock_name_roundtrip:
  assumes "length ip = 4"
  shows "(unat v \<le> 2 ^ 21 - 1 \<longrightarrow>
            (\<exists>nm a. makeIPLockName2 v ip = Some nm \<and> IPv4ToUint32 ip = Some a
               \<and> parseIPLockName nm = Inr (v, a) \<and> To4 (Uint32ToIPv4 a) = ip))
         \<and> (\<exists>nm. makeIPLockName2 (2 ^ 21) ip = Some nm \<and> parseIPLockName nm = Inl VNIMalformed)"
proof -
  from assms obtain b0 b1 b2 b3 where ip: "ip = [b0, b1, b2, b3]"
    by (cases ip; simp; rename_tac x xs; case_tac xs; simp; rename_tac y ys; case_tac ys; simp;
        rename_tac z zs; case_tac zs; simp)
  have u: "IPv4ToUint32 ip
      = Some (push_bit 24 (ucast b0) + push_bit 16 (ucast b1) + push_bit 8 (ucast b2) + ucast b3)"
    by (simp add: IPv4ToUint32_def To4_def ip)
  have inv: "To4 (Uint32ToIPv4 (push_bit 24 (ucast b0) + push_bit 16 (ucast b1)
                + push_bit 8 (ucast b2) + ucast b3)) = ip"
    unfolding ip by (rule To4_Uint32ToIPv4)
  have first: "unat v \<le> 2 ^ 21 - 1 \<longrightarrow>
      (\<exists>nm a. makeIPLockName2 v ip = Some nm \<and> IPv4ToUint32 ip = Some a
         \<and> parseIPLockName nm = Inr (v, a) \<and> To4 (Uint32ToIPv4 a) = ip)"
  proof
    assume "unat v \<le> 2 ^ 21 - 1"
    then have lt: "unat v < 2 ^ 21" by simp
    from parse_make [OF assms, of v] obtain nm a where
      "makeIPLockName2 v ip = Some nm" "IPv4ToUint32 ip = Some a"
      "parseIPLockName nm = (if unat v < 2 ^ 21 then Inr (v, a) else Inl VNIMalformed)"
      by blast
    then show "\<exists>nm a. makeIPLockName2 v ip = Some nm \<and> IPv4ToUint32 ip = Some a
         \<and> parseIPLockName nm = Inr (v, a) \<and> To4 (Uint32ToIPv4 a) = ip"
      using lt u inv by auto
  qed
  have "unat (2 ^ 21 :: uint32) = 2 ^ 21" by simp
  then have "\<not> unat (2 ^ 21 :: uint32) < 2 ^ 21" by simp
  with parse_make [OF assms, of "2 ^ 21"]
  have second: "\<exists>nm. makeIPLockName2 (2 ^ 21) ip = Some nm \<and> parseIPLockName nm = Inl VNIMalformed"
    by auto
  from first second show ?thesis by blast
qed

theorem lock_name_roundtrip_witness:
  "length [10, 0, 0, 5 :: 8 word] = 4 \<and> unat (7 :: uint32) \<le> 2 ^ 21 - 1
   \<and> (\<exists>nm a. makeIPLockName2 7 [10, 0, 0, 5] = Some nm \<and> IPv4ToUint32 [10, 0, 0, 5] = Some a
         \<and> parseIPLockName nm = Inr (7, a) \<and> To4 (Uint32ToIPv4 a) = [10, 0, 0, 5])"
  using lock_name_roundtrip [of "[10, 0, 0, 5]" 7] by simp

section \<open>The order on parsed locks\<close>

text \<open>
  C7, as stated, fails, in three ways. Two parsed locks with the same UID and creation
  time and different VNIs are not \<open>Equal\<close>, and neither is better than the other. Two
  parsed locks with different UIDs whose creation times are one instant in two
  \<open>Location\<close>s are not \<open>Equal\<close>, and neither is better than the other: the times differ
  as structs, so the UIDs are never compared, and neither time is before the other. And
  the relation is not transitive on creation times of which some carry a monotonic
  reading: the first and third lock below are compared by their monotonic readings, both
  with the second by their wall-clock instants.
\<close>

theorem IsBetterThan_counterexample:
  "\<not> Equal (zeroParsedLock\<lparr>pl_UID := ''u'', VNI := 1\<rparr>) (zeroParsedLock\<lparr>pl_UID := ''u'', VNI := 2\<rparr>)
   \<and> \<not> IsBetterThan (zeroParsedLock\<lparr>pl_UID := ''u'', VNI := 1\<rparr>)
          (zeroParsedLock\<lparr>pl_UID := ''u'', VNI := 2\<rparr>)
   \<and> \<not> IsBetterThan (zeroParsedLock\<lparr>pl_UID := ''u'', VNI := 2\<rparr>)
          (zeroParsedLock\<lparr>pl_UID := ''u'', VNI := 1\<rparr>)
   \<and> \<not> Equal
         (zeroParsedLock\<lparr>pl_UID := ''a'',
            CreationTime := \<lparr>wallInstant = 9, monotonic = None, location = 1\<rparr>\<rparr>)
         (zeroParsedLock\<lparr>pl_UID := ''b'',
            CreationTime := \<lparr>wallInstant = 9, monotonic = None, location = 2\<rparr>\<rparr>)
   \<and> \<not> IsBetterThan
         (zeroParsedLock\<lparr>pl_UID := ''a'',
            CreationTime := \<lparr>wallInstant = 9, monotonic = None, location = 1\<rparr>\<rparr>)
         (zeroParsedLock\<lparr>pl_UID := ''b'',
            CreationTime := \<lparr>wallInstant = 9, monotonic = None, location = 2\<rparr>\<rparr>)
   \<and> \<not> IsBetterThan
         (zeroParsedLock\<lparr>pl_UID := ''b'',
            CreationTime := \<lparr>wallInstant = 9, monotonic = None, location = 2\<rparr>\<rparr>)
         (zeroParsedLock\<lparr>pl_UID := ''a'',
            CreationTime := \<lparr>wallInstant = 9, monotonic = None, location = 1\<rparr>\<rparr>)
   \<and> IsBetterThan
         (zeroParsedLock\<lparr>pl_UID := ''a'',
            CreationTime := \<lparr>wallInstant = 1, monotonic = Some 5, location = 1\<rparr>\<rparr>)
         (zeroParsedLock\<lparr>pl_UID := ''b'',
            CreationTime := \<lparr>wallInstant = 2, monotonic = None, location = 1\<rparr>\<rparr>)
   \<and> IsBetterThan
         (zeroParsedLock\<lparr>pl_UID := ''b'',
            CreationTime := \<lparr>wallInstant = 2, monotonic = None, location = 1\<rparr>\<rparr>)
         (zeroParsedLock\<lparr>pl_UID := ''c'',
            CreationTime := \<lparr>wallInstant = 3, monotonic = Some 1, location = 1\<rparr>\<rparr>)
   \<and> \<not> IsBetterThan
         (zeroParsedLock\<lparr>pl_UID := ''a'',
            CreationTime := \<lparr>wallInstant = 1, monotonic = Some 5, location = 1\<rparr>\<rparr>)
         (zeroParsedLock\<lparr>pl_UID := ''c'',
            CreationTime := \<lparr>wallInstant = 3, monotonic = Some 1, location = 1\<rparr>\<rparr>)"
  by (simp add: Equal_def IsBetterThan_def Before_def zeroParsedLock_def zeroTime_def)

text \<open>
  C7, amended: on all parsed locks \<open>IsBetterThan\<close> is irreflexive and asymmetric. It is
  transitive on every three parsed locks of which not exactly two carry a monotonic
  reading in their creation time; locks built from API objects carry none. One of two
  parsed locks is better than the other exactly when their creation times are the same
  \<open>time.Time\<close> value and their UIDs differ, or their creation times are different values
  that \<open>Before\<close> tells apart: by the monotonic readings when both carry one, by the
  wall-clock instants otherwise. In every other case neither is better: when UID and
  creation time agree, whatever the VNIs and addresses, and when the creation times are
  one instant in two \<open>Location\<close>s, whatever the UIDs.
\<close>

theorem IsBetterThan_strict_order:
  "\<not> IsBetterThan x x
   \<and> \<not> (IsBetterThan x y \<and> IsBetterThan y x)
   \<and> (length (filter (\<lambda>p. monotonic (CreationTime p) \<noteq> None) [x, y, z]) \<noteq> 2
        \<longrightarrow> IsBetterThan x y \<and> IsBetterThan y z \<longrightarrow> IsBetterThan x z)
   \<and> ((IsBetterThan x y \<or> IsBetterThan y x) \<longleftrightarrow>
        (if CreationTime x = CreationTime y then pl_UID x \<noteq> pl_UID y
         else case (monotonic (CreationTime x), monotonic (CreationTime y)) of
                (Some a, Some b) \<Rightarrow> a \<noteq> b
              | _ \<Rightarrow> wallInstant (CreationTime x) \<noteq> wallInstant (CreationTime y)))"
proof -
  have irrefl: "\<not> IsBetterThan x x"
    by (simp add: IsBetterThan_def)
  have asym: "\<not> (IsBetterThan x y \<and> IsBetterThan y x)"
    by (auto simp: IsBetterThan_def Before_def split: if_splits option.splits)
  have trans: "length (filter (\<lambda>p. monotonic (CreationTime p) \<noteq> None) [x, y, z]) \<noteq> 2
        \<longrightarrow> IsBetterThan x y \<and> IsBetterThan y z \<longrightarrow> IsBetterThan x z"
    by (auto simp: IsBetterThan_def Before_def split: if_splits option.splits)
  have total: "(IsBetterThan x y \<or> IsBetterThan y x) \<longleftrightarrow>
        (if CreationTime x = CreationTime y then pl_UID x \<noteq> pl_UID y
         else case (monotonic (CreationTime x), monotonic (CreationTime y)) of
                (Some a, Some b) \<Rightarrow> a \<noteq> b
              | _ \<Rightarrow> wallInstant (CreationTime x) \<noteq> wallInstant (CreationTime y))"
    by (auto simp: IsBetterThan_def Before_def split: if_splits option.splits)
  from irrefl asym trans total show ?thesis by blast
qed

theorem IsBetterThan_strict_order_witness:
  "length (filter (\<lambda>p. monotonic (CreationTime p) \<noteq> None)
       [zeroParsedLock\<lparr>pl_UID := ''c''\<rparr>, zeroParsedLock\<lparr>pl_UID := ''b''\<rparr>,
        zeroParsedLock\<lparr>pl_UID := ''a''\<rparr>]) \<noteq> 2
   \<and> IsBetterThan (zeroParsedLock\<lparr>pl_UID := ''c''\<rparr>) (zeroParsedLock\<lparr>pl_UID := ''b''\<rparr>)
   \<and> IsBetterThan (zeroParsedLock\<lparr>pl_UID := ''b''\<rparr>) (zeroParsedLock\<lparr>pl_UID := ''a''\<rparr>)
   \<and> IsBetterThan (zeroParsedLock\<lparr>pl_UID := ''c''\<rparr>) (zeroParsedLock\<lparr>pl_UID := ''a''\<rparr>)
   \<and> \<not> IsBetterThan (zeroParsedLock\<lparr>pl_UID := ''a''\<rparr>) (zeroParsedLock\<lparr>pl_UID := ''c''\<rparr>)
   \<and> \<not> IsBetterThan (zeroParsedLock\<lparr>pl_UID := ''a''\<rparr>) (zeroParsedLock\<lparr>pl_UID := ''a'', VNI := 3\<rparr>)
   \<and> IsBetterThan
       (zeroParsedLock\<lparr>pl_UID := ''a'',
          CreationTime := \<lparr>wallInstant = 8, monotonic = None, location = 1\<rparr>\<rparr>)
       (zeroParsedLock\<lparr>pl_UID := ''b'',
          CreationTime := \<lparr>wallInstant = 9, monotonic = None, location = 2\<rparr>\<rparr>)
   \<and> \<not> IsBetterThan
       (zeroParsedLock\<lparr>pl_UID := ''b'',
          CreationTime := \<lparr>wallInstant = 9, monotonic = None, location = 2\<rparr>\<rparr>)
       (zeroParsedLock\<lparr>pl_UID := ''a'',
          CreationTime := \<lparr>wallInstant = 8, monotonic = None, location = 1\<rparr>\<rparr>)"
  using IsBetterThan_strict_order [of "zeroParsedLock\<lparr>pl_UID := ''c''\<rparr>"
      "zeroParsedLock\<lparr>pl_UID := ''b''\<rparr>" "zeroParsedLock\<lparr>pl_UID := ''a''\<rparr>"]
    IsBetterThan_strict_order [of "zeroParsedLock\<lparr>pl_UID := ''a''\<rparr>"
      "zeroParsedLock\<lparr>pl_UID := ''c''\<rparr>" "zeroParsedLock\<lparr>pl_UID := ''a''\<rparr>"]
    IsBetterThan_strict_order [of "zeroParsedLock\<lparr>pl_UID := ''a''\<rparr>"
      "zeroParsedLock\<lparr>pl_UID := ''a'', VNI := 3\<rparr>" "zeroParsedLock\<lparr>pl_UID := ''a''\<rparr>"]
    IsBetterThan_strict_order [of
      "zeroParsedLock\<lparr>pl_UID := ''a'',
          CreationTime := \<lparr>wallInstant = 8, monotonic = None, location = 1\<rparr>\<rparr>"
      "zeroParsedLock\<lparr>pl_UID := ''b'',
          CreationTime := \<lparr>wallInstant = 9, monotonic = None, location = 2\<rparr>\<rparr>"
      "zeroParsedLock\<lparr>pl_UID := ''a''\<rparr>"]
  by (simp add: IsBetterThan_def Before_def zeroParsedLock_def zeroTime_def)

section \<open>The best lock of a list\<close>

lemma foldl_better_mem:
  "foldl (\<lambda>ans elt. if IsBetterThan elt ans then elt else ans) x xs \<in> set (x # xs)"
  by (induction xs arbitrary: x) auto

text \<open>
  C9: \<open>Best\<close> of the empty list is the zero \<open>ParsedLock\<close> (empty namespace, name and
  UID, VNI, address and creation time zero, no object); \<open>Best\<close> of a list that is not
  empty is an element of the list.
\<close>

theorem Best_result:
  "Best [] = zeroParsedLock \<and> (list \<noteq> [] \<longrightarrow> Best list \<in> set list)"
proof (cases list)
  case Nil
  then show ?thesis by (simp add: Best_def)
next
  case (Cons x xs)
  then show ?thesis using foldl_better_mem [of x xs] by (simp add: Best_def)
qed

theorem Best_result_witness:
  "Best [zeroParsedLock\<lparr>pl_UID := ''a''\<rparr>, zeroParsedLock\<lparr>pl_UID := ''b''\<rparr>]
     \<in> set [zeroParsedLock\<lparr>pl_UID := ''a''\<rparr>, zeroParsedLock\<lparr>pl_UID := ''b''\<rparr>]
   \<and> Best [zeroParsedLock\<lparr>pl_UID := ''a''\<rparr>, zeroParsedLock\<lparr>pl_UID := ''b''\<rparr>]
     = zeroParsedLock\<lparr>pl_UID := ''b''\<rparr>"
  using Best_result [of "[zeroParsedLock\<lparr>pl_UID := ''a''\<rparr>, zeroParsedLock\<lparr>pl_UID := ''b''\<rparr>]"]
  by (simp add: Best_def IsBetterThan_def zeroParsedLock_def)

section \<open>Releasing an address of the cache\<close>

text \<open>
  C10: \<open>ReleaseAddress\<close> on a VNI without an entry returns \<open>changed = false\<close> and leaves
  the cache as it is; when it removes the last address of the VNI's set it deletes the
  VNI's entry; in every case the VNI's entry is not an empty set afterwards.
\<close>

theorem ReleaseAddress_cache:
  "(cache vni = None \<longrightarrow> ReleaseAddress cache vni a = (False, cache))
   \<and> (cache vni = Some {a} \<longrightarrow> ReleaseAddress cache vni a = (True, cache(vni := None)))
   \<and> (\<forall>addrs. cache vni = Some addrs \<and> addrs - {a} \<noteq> {}
         \<longrightarrow> ReleaseAddress cache vni a = (a \<in> addrs, cache(vni \<mapsto> addrs - {a})))
   \<and> snd (ReleaseAddress cache vni a) vni \<noteq> Some {}"
  by (auto simp: ReleaseAddress_def Remove_def IsEmpty_def split: option.splits)

theorem ReleaseAddress_cache_witness:
  "ReleaseAddress Map.empty 7 0x0A000002 = (False, Map.empty)
   \<and> ReleaseAddress [7 \<mapsto> {0x0A000002}] 7 0x0A000002 = (True, Map.empty)
   \<and> ReleaseAddress [7 \<mapsto> {0x0A000002, 0x0A000003}] 7 0x0A000002 = (True, [7 \<mapsto> {0x0A000003}])"
  using ReleaseAddress_cache [of Map.empty 7 "0x0A000002"]
    ReleaseAddress_cache [of "[7 \<mapsto> {0x0A000002}]" 7 "0x0A000002"]
    ReleaseAddress_cache [of "[7 \<mapsto> {0x0A000002, 0x0A000003}]" 7 "0x0A000002"]
  by simp

section \<open>Updating the conflicts cache\<close>

text \<open>
  C8: when the subnet has no entry, \<open>updateConflictsCache\<close> creates one with the new
  summary and no rivals, and harvests nothing. When it has one, the cached rivals are
  harvested and the list of rivals is reset exactly when the VNI or the CIDR block of the
  new summary differs from the cached one; in every case the new summary is installed.
\<close>

theorem updateConflictsCache_harvest:
  "(conflicts (SumNamespacedName s) = None \<longrightarrow>
      updateConflictsCache conflicts s
        = ([], conflicts(SumNamespacedName s \<mapsto> \<lparr>ownerSummary = s, rivals = []\<rparr>)))
   \<and> (\<forall>c. conflicts (SumNamespacedName s) = Some c \<longrightarrow>
         updateConflictsCache conflicts s
           = (if SumVNI s \<noteq> SumVNI (ownerSummary c) \<or> BaseU s \<noteq> BaseU (ownerSummary c)
                 \<or> LastU s \<noteq> LastU (ownerSummary c)
              then (rivals c, conflicts(SumNamespacedName s \<mapsto> \<lparr>ownerSummary = s, rivals = []\<rparr>))
              else ([], conflicts(SumNamespacedName s \<mapsto> \<lparr>ownerSummary = s, rivals = rivals c\<rparr>))))"
  by (auto simp: updateConflictsCache_def Contains_def)

theorem updateConflictsCache_harvest_witness:
  "updateConflictsCache
     [(''ex'', ''s1'') \<mapsto>
        \<lparr>ownerSummary = \<lparr>SumNamespacedName = (''ex'', ''s1''), SumVNI = 20,
                          BaseU = 0x0A000000, LastU = 0x0A0000FF\<rparr>,
         rivals = [(''ex'', ''s2'')]\<rparr>]
     \<lparr>SumNamespacedName = (''ex'', ''s1''), SumVNI = 20, BaseU = 0x0A000000, LastU = 0x0A00007F\<rparr>
   = ([(''ex'', ''s2'')],
      [(''ex'', ''s1'') \<mapsto>
        \<lparr>ownerSummary = \<lparr>SumNamespacedName = (''ex'', ''s1''), SumVNI = 20,
                          BaseU = 0x0A000000, LastU = 0x0A00007F\<rparr>,
         rivals = []\<rparr>])
   \<and> updateConflictsCache Map.empty
       \<lparr>SumNamespacedName = (''ex'', ''s1''), SumVNI = 20, BaseU = 0x0A000000, LastU = 0x0A00007F\<rparr>
     = ([], [(''ex'', ''s1'') \<mapsto>
          \<lparr>ownerSummary = \<lparr>SumNamespacedName = (''ex'', ''s1''), SumVNI = 20,
                            BaseU = 0x0A000000, LastU = 0x0A00007F\<rparr>,
           rivals = []\<rparr>])"
  using updateConflictsCache_harvest
      [of "[(''ex'', ''s1'') \<mapsto>
             \<lparr>ownerSummary = \<lparr>SumNamespacedName = (''ex'', ''s1''), SumVNI = 20,
                               BaseU = 0x0A000000, LastU = 0x0A0000FF\<rparr>,
              rivals = [(''ex'', ''s2'')]\<rparr>]"
          "\<lparr>SumNamespacedName = (''ex'', ''s1''), SumVNI = 20, BaseU = 0x0A000000,
            LastU = 0x0A00007F\<rparr>"]
    updateConflictsCache_harvest
      [of Map.empty
          "\<lparr>SumNamespacedName = (''ex'', ''s1''), SumVNI = 20, BaseU = 0x0A000000,
            LastU = 0x0A00007F\<rparr>"]
  by simp

section \<open>Picking and locking an address\<close>

text \<open>The definitions a concrete run unfolds.\<close>

lemmas eval_defs =
  exTime_def zeroTime_def Before_def exWorld_def exAttachment_def exLock_def exEnv_def exSubnet_def
  pickAndLockAddress_def PickAddress_def AddOneInRange.simps
  makeIPLockName2_def Uint32ToIPv4_def IPv4_def To4_def v4InV6Prefix_def
  FormatUint.simps digitChar_def serveCreate_def serveGet_def serveDelete_def serveUpdate_def
  findLock_def lockedBy_def Let_def serverError_def GetOwner_def OwningAttachments_def
  analyzeAndRelease_def fetchSubnet_def IPNetToBoundsU_def IPv4ToUint32_def initialAnalysis_def
  considerStatusIP_def consider'_def NewParsedLock_def parseIPLockName_def ParseUint_def
  isDigit_def digitsValue_def emptyBins_def invalidateAnticipation_def chooseRelease_def
  RemFunc_def AddFunc_def deleteIPLockObject_def zeroParsedLock_def zeroNetworkAttachmentData_def
  Equal_def Best_def IsBetterThan_def GetIP_def IPString_def ReleaseAddress_def Remove_def IsEmpty_def

lemma createLoop_result:
  "createLoop nm att vni a ipl lfs ip sc w = Done ((lfs', ip', err), sc', w') \<Longrightarrow>
     addrU lfs' = addrU lfs \<and> VNI lfs' = VNI lfs \<and> ip' = ip \<and> err \<noteq> Some ErrNoAddress"
proof (induction nm att vni a ipl lfs ip sc w rule: createLoop.induct)
  case (1 nm att vni a ipl lfs ip w)
  then show ?case by simp
next
  case (2 nm att vni a ipl lfs ip s sc w)
  show ?case
  proof (cases "serveCreate s ipl (locks w)")
    case (Pair res ls)
    show ?thesis
    proof (cases res)
      case (Inr ipl2)
      with Pair "2.prems" show ?thesis by (auto simp: lockedBy_def)
    next
      case (Inl e)
      show ?thesis
      proof (cases "reason e = AlreadyExists")
        case False
        with Pair Inl "2.prems" show ?thesis
          by (auto simp: Let_def split: prod.splits if_splits)
      next
        case True
        show ?thesis
        proof (cases sc)
          case Nil
          with Pair Inl True "2.prems" show ?thesis by simp
        next
          case (Cons g sc2)
          show ?thesis
          proof (cases "serveGet g (Namespace ipl) (Name ipl) (locks w)")
            case (Inr ipl2)
            with Pair Inl True Cons "2.prems" show ?thesis
              by (auto simp: lockedBy_def split: if_splits)
          next
            case get: (Inl e2)
            show ?thesis
            proof (cases "reason e2 = NotFound")
              case False
              with Pair Inl True Cons get "2.prems" show ?thesis by auto
            next
              case nf: True
              have "createLoop nm att vni a ipl lfs ip sc2 w = Done ((lfs', ip', err), sc', w')"
                using Pair Inl True Cons get nf "2.prems" by simp
              then show ?thesis
                using "2.IH" [OF Pair [symmetric] Inl True Cons get nf] by simp
            qed
          qed
        qed
      qed
    qed
  qed
qed

lemma AddOneInRange_ok:
  "AddOneInRange s lo hi = (s', a, True) \<Longrightarrow> lo \<le> a \<and> a \<le> hi \<and> a \<notin> s \<and> s' = insert a s"
proof (induction s lo hi rule: AddOneInRange.induct)
  case (1 s lo hi)
  show ?case
  proof (cases "hi < lo \<or> lo \<notin> s \<or> lo = hi")
    case True
    then show ?thesis using "1.prems" by (subst (asm) AddOneInRange.simps) (auto split: if_splits)
  next
    case False
    then have rec: "AddOneInRange s (lo + 1) hi = (s', a, True)"
      using "1.prems" by (subst (asm) AddOneInRange.simps) simp
    from False have lt: "lo < hi" by auto
    have "lo + 1 \<le> a \<and> a \<le> hi \<and> a \<notin> s \<and> s' = insert a s"
      using "1.IH" False rec by simp
    moreover have "lo \<le> lo + 1" using lt by unat_arith
    ultimately show ?thesis by (meson order_trans)
  qed
qed

lemma AddOneInRange_fail:
  "AddOneInRange s lo hi = (s', a, False) \<Longrightarrow> s' = s \<and> (\<forall>x. lo \<le> x \<and> x \<le> hi \<longrightarrow> x \<in> s)"
proof (induction s lo hi rule: AddOneInRange.induct)
  case (1 s lo hi)
  show ?case
  proof (cases "hi < lo \<or> lo \<notin> s \<or> lo = hi")
    case True
    then show ?thesis using "1.prems" by (subst (asm) AddOneInRange.simps) (auto split: if_splits)
  next
    case False
    then have rec: "AddOneInRange s (lo + 1) hi = (s', a, False)"
      using "1.prems" by (subst (asm) AddOneInRange.simps) simp
    from False have lt: "lo < hi" and mem: "lo \<in> s" by auto
    have ih: "s' = s \<and> (\<forall>x. lo + 1 \<le> x \<and> x \<le> hi \<longrightarrow> x \<in> s)"
      using "1.IH" False rec by simp
    have "\<And>x. lo \<le> x \<Longrightarrow> x \<noteq> lo \<Longrightarrow> lo + 1 \<le> x"
      using lt by unat_arith
    then show ?thesis using ih mem by metis
  qed
qed

lemma pick_bounds:
  fixes b l x :: uint32
  assumes "b \<le> l"
  shows "(if l - b \<ge> 4 then b + 2 \<le> x \<and> x \<le> l - 1 else b \<le> x \<and> x \<le> l)
     \<longleftrightarrow> (if unat l - unat b + 1 \<le> 4 then unat b \<le> unat x \<and> unat x \<le> unat l
          else unat b + 2 \<le> unat x \<and> unat x \<le> unat l - 1)"
proof (cases "l - b \<ge> 4")
  case True
  then have big: "\<not> unat l - unat b + 1 \<le> 4" using assms by unat_arith
  have "b + 2 \<le> x \<longleftrightarrow> unat b + 2 \<le> unat x" using True assms by unat_arith
  moreover have "x \<le> l - 1 \<longleftrightarrow> unat x \<le> unat l - 1" using True assms by unat_arith
  ultimately show ?thesis using True big by simp
next
  case False
  then have small: "unat l - unat b + 1 \<le> 4" using assms by unat_arith
  show ?thesis using False small by (simp add: word_le_nat_alt)
qed

text \<open>
  C2, as stated, fails: on a block of four addresses (\<open>10.0.0.0/30\<close>) the guard
  \<open>addrMax - addrMin >= 4\<close> does not hold, nothing is reserved, and with an empty cache
  the first address of the block is picked.
\<close>

theorem pickAndLockAddress_size4_counterexample:
  "pickAndLockAddress ''ex'' ''a1'' exAttachment ''s1'' 7 0x0A000000 0x0A000003
     [Serve ''lock-1'' (exTime 101)] (exWorld exAttachment [])
   = Done ((\<lparr>pl_ns = ''ex'', pl_name = ''v1-7-10-0-0-0'', VNI = 7, addrU = 0x0A000000,
             pl_UID = ''lock-1'', CreationTime = exTime 101,
             Obj = Some ((exLock ''v1-7-10-0-0-0'' ''lock-1'' ''att-1'' 101)\<lparr>ResourceVersion := []\<rparr>)\<rparr>,
            IPv4 10 0 0 0, None), [],
           (exWorld exAttachment [(exLock ''v1-7-10-0-0-0'' ''lock-1'' ''att-1'' 101)\<lparr>ResourceVersion := []\<rparr>])
             \<lparr>addrCache := [7 \<mapsto> {0x0A000000}]\<rparr>)"
  by (simp add: eval_defs)

text \<open>
  C2, amended: for every block \<open>[base, last]\<close>, \<open>pickAndLockAddress\<close> picks from the
  full block when the block has at most four addresses (\<open>last - base < 4\<close>) and only
  from \<open>[base + 2, last - 1]\<close> when it has five or more; it reports that no address is
  available only when every address of that range is in the cache.
\<close>

theorem pickAndLockAddress_range:
  assumes le: "subnetBaseU \<le> subnetLastU"
    and run: "pickAndLockAddress ns nm att subnetNm vni subnetBaseU subnetLastU sc w
                = Done ((lfs, ip, err), sc', w')"
  shows "(err \<noteq> Some ErrNoAddress \<longrightarrow>
            ip = Uint32ToIPv4 (addrU lfs)
            \<and> (if unat subnetLastU - unat subnetBaseU + 1 \<le> 4
               then unat subnetBaseU \<le> unat (addrU lfs) \<and> unat (addrU lfs) \<le> unat subnetLastU
               else unat subnetBaseU + 2 \<le> unat (addrU lfs)
                    \<and> unat (addrU lfs) \<le> unat subnetLastU - 1))
       \<and> (err = Some ErrNoAddress \<longrightarrow>
            (\<forall>x. (if unat subnetLastU - unat subnetBaseU + 1 \<le> 4
                  then unat subnetBaseU \<le> unat x \<and> unat x \<le> unat subnetLastU
                  else unat subnetBaseU + 2 \<le> unat x \<and> unat x \<le> unat subnetLastU - 1)
               \<longrightarrow> (\<exists>s. addrCache w vni = Some s \<and> x \<in> s)))"
proof -
  define addrMin where "addrMin = (if subnetLastU - subnetBaseU \<ge> 4 then subnetBaseU + 2 else subnetBaseU)"
  define addrMax where "addrMax = (if subnetLastU - subnetBaseU \<ge> 4 then subnetLastU - 1 else subnetLastU)"
  define addrs where "addrs = (case addrCache w vni of None \<Rightarrow> {} | Some s \<Rightarrow> s)"
  obtain addrs' a ok where pick: "AddOneInRange addrs addrMin addrMax = (addrs', a, ok)"
    by (cases "AddOneInRange addrs addrMin addrMax") auto
  have rng: "\<And>x. (addrMin \<le> x \<and> x \<le> addrMax)
      \<longleftrightarrow> (if unat subnetLastU - unat subnetBaseU + 1 \<le> 4
           then unat subnetBaseU \<le> unat x \<and> unat x \<le> unat subnetLastU
           else unat subnetBaseU + 2 \<le> unat x \<and> unat x \<le> unat subnetLastU - 1)"
  proof -
    fix x
    have eq: "(addrMin \<le> x \<and> x \<le> addrMax)
        \<longleftrightarrow> (if subnetLastU - subnetBaseU \<ge> 4
             then subnetBaseU + 2 \<le> x \<and> x \<le> subnetLastU - 1
             else subnetBaseU \<le> x \<and> x \<le> subnetLastU)"
      by (simp add: addrMin_def addrMax_def)
    show "(addrMin \<le> x \<and> x \<le> addrMax)
      \<longleftrightarrow> (if unat subnetLastU - unat subnetBaseU + 1 \<le> 4
           then unat subnetBaseU \<le> unat x \<and> unat x \<le> unat subnetLastU
           else unat subnetBaseU + 2 \<le> unat x \<and> unat x \<le> unat subnetLastU - 1)"
      unfolding eq by (rule pick_bounds [OF le])
  qed
  have unfolded: "pickAndLockAddress ns nm att subnetNm vni subnetBaseU subnetLastU sc w
      = (if \<not> ok then Done ((zeroParsedLock, [], Some ErrNoAddress), sc,
                               w\<lparr>addrCache := (addrCache w)(vni \<mapsto> addrs')\<rparr>)
         else (case makeIPLockName2 vni (Uint32ToIPv4 a) of
                 None \<Rightarrow> Panic
               | Some lockNm \<Rightarrow>
                   createLoop nm att vni a
                     \<lparr>Namespace = ns, Name = lockNm, UID = [], ResourceVersion = [],
                      CreationTimestamp = zeroTime,
                      OwnerReferences =
                        [\<lparr>Kind = ''NetworkAttachment'', RefName = nm, RefUID = UID att,
                          Controller = Some True\<rparr>],
                      SpecSubnetName = subnetNm\<rparr>
                     \<lparr>pl_ns = ns, pl_name = lockNm, VNI = vni, addrU = a,
                      pl_UID = [], CreationTime = zeroTime, Obj = None\<rparr>
                     (Uint32ToIPv4 a) sc (w\<lparr>addrCache := (addrCache w)(vni \<mapsto> addrs')\<rparr>)))"
    using pick
    by (simp add: pickAndLockAddress_def PickAddress_def Let_def addrMin_def addrMax_def addrs_def
        split: if_splits option.splits)
  show ?thesis
  proof (cases ok)
    case True
    with run unfolded obtain lockNm where
      loop: "createLoop nm att vni a
               \<lparr>Namespace = ns, Name = lockNm, UID = [], ResourceVersion = [],
                CreationTimestamp = zeroTime,
                OwnerReferences =
                  [\<lparr>Kind = ''NetworkAttachment'', RefName = nm, RefUID = UID att,
                    Controller = Some True\<rparr>],
                SpecSubnetName = subnetNm\<rparr>
               \<lparr>pl_ns = ns, pl_name = lockNm, VNI = vni, addrU = a,
                pl_UID = [], CreationTime = zeroTime, Obj = None\<rparr>
               (Uint32ToIPv4 a) sc (w\<lparr>addrCache := (addrCache w)(vni \<mapsto> addrs')\<rparr>)
             = Done ((lfs, ip, err), sc', w')"
      by (auto split: option.splits)
    from createLoop_result [OF loop]
    have res: "addrU lfs = a" "ip = Uint32ToIPv4 a" "err \<noteq> Some ErrNoAddress" by simp_all
    from AddOneInRange_ok [of addrs addrMin addrMax addrs' a] pick True
    have "addrMin \<le> a \<and> a \<le> addrMax" by simp
    with rng [of a]
    have "if unat subnetLastU - unat subnetBaseU + 1 \<le> 4
          then unat subnetBaseU \<le> unat a \<and> unat a \<le> unat subnetLastU
          else unat subnetBaseU + 2 \<le> unat a \<and> unat a \<le> unat subnetLastU - 1"
      by blast
    then show ?thesis using res by (auto split: if_splits)
  next
    case False
    with run unfolded have e: "err = Some ErrNoAddress" by simp
    from AddOneInRange_fail [of addrs addrMin addrMax addrs' a] pick False
    have all: "\<forall>x. addrMin \<le> x \<and> x \<le> addrMax \<longrightarrow> x \<in> addrs" by simp
    have "\<And>x. x \<in> addrs \<Longrightarrow> \<exists>s. addrCache w vni = Some s \<and> x \<in> s"
      by (auto simp: addrs_def split: option.splits)
    then show ?thesis using e all rng by blast
  qed
qed

theorem pickAndLockAddress_range_witness:
  "(0x0A000000 :: uint32) \<le> 0x0A0000FF
   \<and> pickAndLockAddress ''ex'' ''a1'' exAttachment ''s1'' 7 0x0A000000 0x0A0000FF
       [Serve ''lock-1'' (exTime 101)] (exWorld exAttachment [])
     = Done ((\<lparr>pl_ns = ''ex'', pl_name = ''v1-7-10-0-0-2'', VNI = 7, addrU = 0x0A000002,
               pl_UID = ''lock-1'', CreationTime = exTime 101,
               Obj = Some ((exLock ''v1-7-10-0-0-2'' ''lock-1'' ''att-1'' 101)\<lparr>ResourceVersion := []\<rparr>)\<rparr>,
              IPv4 10 0 0 2, None), [],
             (exWorld exAttachment [(exLock ''v1-7-10-0-0-2'' ''lock-1'' ''att-1'' 101)\<lparr>ResourceVersion := []\<rparr>])
               \<lparr>addrCache := [7 \<mapsto> {0x0A000002}]\<rparr>)
   \<and> unat (0x0A000000 :: uint32) + 2 \<le> unat (0x0A000002 :: uint32)
   \<and> unat (0x0A000002 :: uint32) \<le> unat (0x0A0000FF :: uint32) - 1"
proof -
  have le: "(0x0A000000 :: uint32) \<le> 0x0A0000FF" by simp
  have run: "pickAndLockAddress ''ex'' ''a1'' exAttachment ''s1'' 7 0x0A000000 0x0A0000FF
       [Serve ''lock-1'' (exTime 101)] (exWorld exAttachment [])
     = Done ((\<lparr>pl_ns = ''ex'', pl_name = ''v1-7-10-0-0-2'', VNI = 7, addrU = 0x0A000002,
               pl_UID = ''lock-1'', CreationTime = exTime 101,
               Obj = Some ((exLock ''v1-7-10-0-0-2'' ''lock-1'' ''att-1'' 101)\<lparr>ResourceVersion := []\<rparr>)\<rparr>,
              IPv4 10 0 0 2, None), [],
             (exWorld exAttachment [(exLock ''v1-7-10-0-0-2'' ''lock-1'' ''att-1'' 101)\<lparr>ResourceVersion := []\<rparr>])
               \<lparr>addrCache := [7 \<mapsto> {0x0A000002}]\<rparr>)"
    by (simp add: eval_defs)
  from pickAndLockAddress_range [OF le run] le run show ?thesis by simp
qed

section \<open>Invalidating the anticipation\<close>

lemma analyzeAndRelease_past_lookup:
  assumes go: "fetchSubnet e ns att = SubnetGo r0"
    and idx: "lockIndexer e nm = Some ownedObjs"
    and run: "analyzeAndRelease e ns nm att nadat sc w = Done ((r, nadat'), sc', w')"
  shows "nadat' = invalidateAnticipation att (resSubnetRV r0) nadat"
  using run unfolding analyzeAndRelease_def go idx
  by (auto simp: Let_def split: run.splits prod.splits option.splits)

lemma analyzeAndRelease_early_return:
  assumes early: "lockIndexer e nm = None \<or> (\<exists>r0. fetchSubnet e ns att = SubnetStop r0)"
    and run: "analyzeAndRelease e ns nm att nadat sc w = Done ((r, nadat'), sc', w')"
  shows "nadat' = nadat"
  using run early unfolding analyzeAndRelease_def
  by (auto simp: Let_def split: subnetOutcome.splits option.splits)

text \<open>
  C3, as stated, fails: the attachment below names a subnet that the informer does not
  hold, and its resource version \<open>5\<close> is neither of the two remembered ones, \<open>1\<close> and \<open>2\<close>.
  \<open>analyzeAndRelease\<close> returns at the lookup of the subnet, before the invalidation, and
  the four anticipation fields are as they were.
\<close>

theorem anticipation_invalidation_counterexample:
  "analyzeAndRelease (exEnv (Found (exAttachment\<lparr>SpecSubnet := ''s9''\<rparr>)) []) ''ex'' ''a1''
     (Some (exAttachment\<lparr>SpecSubnet := ''s9''\<rparr>))
     (Some \<lparr>anticipatedIPv4 = IPv4 10 0 0 5, anticipatingResourceVersion = ''1'',
            anticipatedResourceVersion = ''2'', anticipationSubnetRV = ''3''\<rparr>)
     [] (exWorld (exAttachment\<lparr>SpecSubnet := ''s9''\<rparr>) [])
   = Done ((initialAnalysis\<lparr>resSubnetName := ''s9''\<rparr>,
            Some \<lparr>anticipatedIPv4 = IPv4 10 0 0 5, anticipatingResourceVersion = ''1'',
                  anticipatedResourceVersion = ''2'', anticipationSubnetRV = ''3''\<rparr>),
           [], exWorld (exAttachment\<lparr>SpecSubnet := ''s9''\<rparr>) [])
   \<and> ResourceVersion (exAttachment\<lparr>SpecSubnet := ''s9''\<rparr>) = ''5''"
  by (simp add: analyzeAndRelease_def fetchSubnet_def exEnv_def exAttachment_def)

text \<open>
  C3, amended: a run of \<open>analyzeAndRelease\<close> that gets past the lookups (the attachment
  is gone, or its subnet is found and the subnet's CIDR parses; and the lookup of the
  owned locks succeeds) zeroes the four anticipation fields exactly when the attachment
  is gone, or its resource version is neither of the two remembered ones, or the resource
  version of the subnet differs from the remembered one, and otherwise leaves them as they
  are. A run that returns at one of the lookups (the subnet lister fails, the subnet is
  missing, its CIDR does not parse, or the lookup of the owned locks fails) leaves the
  four fields as they are, whatever the resource versions.
\<close>

theorem anticipation_invalidation:
  assumes run: "analyzeAndRelease e ns nm att (Some d) sc w = Done ((r, nadat'), sc', w')"
  shows "(att = None \<and> lockIndexer e nm \<noteq> None \<longrightarrow> nadat' = Some zeroNetworkAttachmentData)
       \<and> (\<forall>a subnet ipNet.
             att = Some a \<and> subnetLister e ns (SpecSubnet a) = Found subnet
             \<and> ParseCIDR e (SpecIPv4 subnet) = Some ipNet \<and> lockIndexer e nm \<noteq> None \<longrightarrow>
             nadat' = Some (if anticipatingResourceVersion d \<noteq> ResourceVersion a
                               \<and> anticipatedResourceVersion d \<noteq> ResourceVersion a
                               \<or> anticipationSubnetRV d \<noteq> ResourceVersion subnet
                            then zeroNetworkAttachmentData else d))
       \<and> (lockIndexer e nm = None
            \<or> (\<exists>a. att = Some a
                  \<and> (case subnetLister e ns (SpecSubnet a) of
                        Found subnet \<Rightarrow> ParseCIDR e (SpecIPv4 subnet) = None
                      | Missing \<Rightarrow> True
                      | LookupError \<Rightarrow> True))
          \<longrightarrow> nadat' = Some d)"
proof (intro conjI impI allI)
  assume h: "att = None \<and> lockIndexer e nm \<noteq> None"
  then obtain ownedObjs where idx: "lockIndexer e nm = Some ownedObjs" by auto
  from h have "fetchSubnet e ns att = SubnetGo initialAnalysis"
    by (simp add: fetchSubnet_def)
  from analyzeAndRelease_past_lookup [OF this idx run] h
  show "nadat' = Some zeroNetworkAttachmentData"
    by (simp add: invalidateAnticipation_def)
next
  fix a subnet ipNet
  assume h: "att = Some a \<and> subnetLister e ns (SpecSubnet a) = Found subnet
             \<and> ParseCIDR e (SpecIPv4 subnet) = Some ipNet \<and> lockIndexer e nm \<noteq> None"
  then obtain ownedObjs where idx: "lockIndexer e nm = Some ownedObjs" by auto
  have "fetchSubnet e ns att \<noteq> SubnetPanic"
    using run by (auto simp: analyzeAndRelease_def)
  with h obtain r0 where go: "fetchSubnet e ns att = SubnetGo r0"
    and rv: "resSubnetRV r0 = ResourceVersion subnet"
    by (auto simp: fetchSubnet_def Let_def split: option.splits prod.splits)
  from analyzeAndRelease_past_lookup [OF go idx run] h rv
  show "nadat' = Some (if anticipatingResourceVersion d \<noteq> ResourceVersion a
                               \<and> anticipatedResourceVersion d \<noteq> ResourceVersion a
                               \<or> anticipationSubnetRV d \<noteq> ResourceVersion subnet
                            then zeroNetworkAttachmentData else d)"
    by (simp add: invalidateAnticipation_def)
next
  assume h: "lockIndexer e nm = None
            \<or> (\<exists>a. att = Some a
                  \<and> (case subnetLister e ns (SpecSubnet a) of
                        Found subnet \<Rightarrow> ParseCIDR e (SpecIPv4 subnet) = None
                      | Missing \<Rightarrow> True
                      | LookupError \<Rightarrow> True))"
  then have "lockIndexer e nm = None \<or> (\<exists>r0. fetchSubnet e ns att = SubnetStop r0)"
  proof
    assume "lockIndexer e nm = None"
    then show ?thesis by simp
  next
    assume "\<exists>a. att = Some a
                  \<and> (case subnetLister e ns (SpecSubnet a) of
                        Found subnet \<Rightarrow> ParseCIDR e (SpecIPv4 subnet) = None
                      | Missing \<Rightarrow> True
                      | LookupError \<Rightarrow> True)"
    then obtain a where a: "att = Some a"
      and c: "case subnetLister e ns (SpecSubnet a) of
                Found subnet \<Rightarrow> ParseCIDR e (SpecIPv4 subnet) = None
              | Missing \<Rightarrow> True
              | LookupError \<Rightarrow> True"
      by blast
    have "\<exists>r0. fetchSubnet e ns (Some a) = SubnetStop r0"
      using c by (cases "subnetLister e ns (SpecSubnet a)") (simp_all add: fetchSubnet_def Let_def)
    with a show ?thesis by simp
  qed
  from analyzeAndRelease_early_return [OF this run] show "nadat' = Some d" .
qed

theorem anticipation_invalidation_witness:
  "analyzeAndRelease (exEnv (Found exAttachment) []) ''ex'' ''a1'' (Some exAttachment)
     (Some \<lparr>anticipatedIPv4 = IPv4 10 0 0 5, anticipatingResourceVersion = ''4'',
            anticipatedResourceVersion = ''5'', anticipationSubnetRV = ''3''\<rparr>)
     [] (exWorld exAttachment [])
   = Done ((\<lparr>resSubnetName = ''s1'', resSubnetRV = ''3'', desiredVNI = 7,
             desiredBaseU = 0x0A000000, desiredLastU = 0x0A0000FF,
             lockInStatus = zeroParsedLock, lockForStatus = zeroParsedLock,
             resErr = None, resOk = True\<rparr>,
            Some \<lparr>anticipatedIPv4 = IPv4 10 0 0 5, anticipatingResourceVersion = ''4'',
                  anticipatedResourceVersion = ''5'', anticipationSubnetRV = ''3''\<rparr>),
           [], exWorld exAttachment [])
   \<and> analyzeAndRelease (exEnv (Found exAttachment) []) ''ex'' ''a1'' (Some exAttachment)
     (Some \<lparr>anticipatedIPv4 = IPv4 10 0 0 5, anticipatingResourceVersion = ''4'',
            anticipatedResourceVersion = ''5'', anticipationSubnetRV = ''2''\<rparr>)
     [] (exWorld exAttachment [])
   = Done ((\<lparr>resSubnetName = ''s1'', resSubnetRV = ''3'', desiredVNI = 7,
             desiredBaseU = 0x0A000000, desiredLastU = 0x0A0000FF,
             lockInStatus = zeroParsedLock, lockForStatus = zeroParsedLock,
             resErr = None, resOk = True\<rparr>,
            Some zeroNetworkAttachmentData),
           [], exWorld exAttachment [])
   \<and> analyzeAndRelease (exEnv Missing []) ''ex'' ''a1'' None
     (Some \<lparr>anticipatedIPv4 = IPv4 10 0 0 5, anticipatingResourceVersion = ''4'',
            anticipatedResourceVersion = ''5'', anticipationSubnetRV = ''3''\<rparr>)
     [] (exWorld exAttachment [])
   = Done ((initialAnalysis\<lparr>resOk := True\<rparr>, Some zeroNetworkAttachmentData),
           [], exWorld exAttachment [])
   \<and> analyzeAndRelease (exEnv (Found (exAttachment\<lparr>SpecSubnet := ''s9''\<rparr>)) []) ''ex'' ''a1''
     (Some (exAttachment\<lparr>SpecSubnet := ''s9''\<rparr>))
     (Some \<lparr>anticipatedIPv4 = IPv4 10 0 0 5, anticipatingResourceVersion = ''4'',
            anticipatedResourceVersion = ''5'', anticipationSubnetRV = ''2''\<rparr>)
     [] (exWorld exAttachment [])
   = Done ((initialAnalysis\<lparr>resSubnetName := ''s9''\<rparr>,
            Some \<lparr>anticipatedIPv4 = IPv4 10 0 0 5, anticipatingResourceVersion = ''4'',
                  anticipatedResourceVersion = ''5'', anticipationSubnetRV = ''2''\<rparr>),
           [], exWorld exAttachment [])"
proof -
  let ?e = "exEnv (Found exAttachment) []"
  let ?a9 = "exAttachment\<lparr>SpecSubnet := ''s9''\<rparr>"
  let ?e9 = "exEnv (Found ?a9) []"
  let ?d1 = "\<lparr>anticipatedIPv4 = IPv4 10 0 0 5, anticipatingResourceVersion = ''4'',
            anticipatedResourceVersion = ''5'', anticipationSubnetRV = ''3''\<rparr>"
  let ?d2 = "\<lparr>anticipatedIPv4 = IPv4 10 0 0 5, anticipatingResourceVersion = ''4'',
            anticipatedResourceVersion = ''5'', anticipationSubnetRV = ''2''\<rparr>"
  let ?r = "\<lparr>resSubnetName = ''s1'', resSubnetRV = ''3'', desiredVNI = 7,
             desiredBaseU = 0x0A000000, desiredLastU = 0x0A0000FF,
             lockInStatus = zeroParsedLock, lockForStatus = zeroParsedLock,
             resErr = None, resOk = True\<rparr>"
  have idx: "lockIndexer ?e ''a1'' \<noteq> None" by (simp add: exEnv_def)
  have sub: "subnetLister ?e ''ex'' (SpecSubnet exAttachment) = Found exSubnet"
    by (simp add: exEnv_def exAttachment_def)
  have cidr: "ParseCIDR ?e (SpecIPv4 exSubnet)
                = Some \<lparr>netIP = [10, 0, 0, 0], maskOnes = 24, maskBits = 32\<rparr>"
    by (simp add: exEnv_def exSubnet_def)
  have rv: "ResourceVersion exAttachment = ''5''" "ResourceVersion exSubnet = ''3''"
    by (simp_all add: exAttachment_def exSubnet_def)
  obtain r1 n1 s1 w1 where run1:
    "analyzeAndRelease ?e ''ex'' ''a1'' (Some exAttachment) (Some ?d1) [] (exWorld exAttachment [])
       = Done ((r1, n1), s1, w1)"
    and rest1: "r1 = ?r" "s1 = []" "w1 = exWorld exAttachment []"
    by (simp add: eval_defs)
  obtain r2 n2 s2 w2 where run2:
    "analyzeAndRelease ?e ''ex'' ''a1'' (Some exAttachment) (Some ?d2) [] (exWorld exAttachment [])
       = Done ((r2, n2), s2, w2)"
    and rest2: "r2 = ?r" "s2 = []" "w2 = exWorld exAttachment []"
    by (simp add: eval_defs)
  from anticipation_invalidation [OF run1] idx sub cidr rv have "n1 = Some ?d1" by simp
  moreover
  from anticipation_invalidation [OF run2] idx sub cidr rv have "n2 = Some zeroNetworkAttachmentData"
    by simp
  moreover
  have idx0: "lockIndexer (exEnv Missing []) ''a1'' \<noteq> None" by (simp add: exEnv_def)
  obtain r3 n3 s3 w3 where run3:
    "analyzeAndRelease (exEnv Missing []) ''ex'' ''a1'' None (Some ?d1) [] (exWorld exAttachment [])
       = Done ((r3, n3), s3, w3)"
    and rest3: "r3 = initialAnalysis\<lparr>resOk := True\<rparr>" "s3 = []" "w3 = exWorld exAttachment []"
    by (simp add: eval_defs)
  from anticipation_invalidation [OF run3] idx0 have "n3 = Some zeroNetworkAttachmentData"
    by simp
  moreover
  have sub9: "subnetLister ?e9 ''ex'' (SpecSubnet ?a9) = Missing"
    by (simp add: exEnv_def)
  obtain r4 n4 s4 w4 where run4:
    "analyzeAndRelease ?e9 ''ex'' ''a1'' (Some ?a9) (Some ?d2) [] (exWorld exAttachment [])
       = Done ((r4, n4), s4, w4)"
    and rest4: "r4 = initialAnalysis\<lparr>resSubnetName := ''s9''\<rparr>" "s4 = []"
      "w4 = exWorld exAttachment []"
    by (simp add: analyzeAndRelease_def fetchSubnet_def exEnv_def exAttachment_def)
  from anticipation_invalidation [OF run4] sub9 have "n4 = Some ?d2"
    by simp
  ultimately show ?thesis using run1 run2 run3 run4 rest1 rest2 rest3 rest4 by simp
qed

section \<open>Time slippers are not released\<close>

lemma NewParsedLock_Obj: "NewParsedLock ipl = Inr p \<Longrightarrow> Obj p = Some ipl"
  by (auto simp: NewParsedLock_def split: sum.splits)

lemma consider_owned:
  "ownedBins (UID a) b \<Longrightarrow> ownedBins (UID a) (consider' (Some a) r b ipl)"
  by (auto simp: ownedBins_def consider'_def Let_def dest: NewParsedLock_Obj split: sum.splits)

lemma fold_consider_owned:
  "ownedBins (UID a) b \<Longrightarrow> ownedBins (UID a) (foldl (consider' (Some a) r) b ls)"
  by (induction ls arbitrary: b) (auto intro: consider_owned)

lemma considerStatusIP_owned:
  "considerStatusIP e ns nm (Some a) r b sc w = Done (b', sc1) \<Longrightarrow> ownedBins (UID a) b
     \<Longrightarrow> ownedBins (UID a) b'"
  by (auto simp: considerStatusIP_def Let_def intro: consider_owned
      split: if_splits option.splits list.splits sum.splits)

lemma remFirst_subset: "set (fst (remFirst xs e)) \<subseteq> set xs"
  by (induction xs) (auto split: prod.splits)

lemma RemFunc_subset: "set (fst (RemFunc xs e)) \<subseteq> set xs"
  using remFirst_subset [of xs e] by (auto simp: RemFunc_def)

lemma AddFunc_subset: "set (fst (AddFunc xs e)) \<subseteq> insert e (set xs)"
  by (auto simp: AddFunc_def)

lemma AddListFunc_subset: "set (fst (AddListFunc xs ys)) \<subseteq> set xs \<union> set ys"
proof (induction ys arbitrary: xs)
  case Nil
  then show ?case by simp
next
  case (Cons y ys)
  obtain zs d where a: "AddFunc xs y = (zs, d)" by (cases "AddFunc xs y")
  have "set zs \<subseteq> insert y (set xs)" using AddFunc_subset [of xs y] a by simp
  moreover have "set (fst (AddListFunc zs ys)) \<subseteq> set zs \<union> set ys" by (rule Cons.IH)
  ultimately show ?case using a by (auto split: prod.splits)
qed

lemma chooseRelease_subset: "set (snd (chooseRelease att b)) \<subseteq> set (usableLocks b)"
  using RemFunc_subset [of "usableLocks b"] by (auto simp: chooseRelease_def)

lemma releaseLocks_calls:
  "releaseLocks ls sc w = Done (err, sc', w') \<Longrightarrow>
     \<exists>new. deleteCalls w' = deleteCalls w @ new \<and> set new \<subseteq> set ls"
proof (induction ls sc w rule: releaseLocks.induct)
  case (1 sc w)
  then show ?case by simp
next
  case (2 l rest w)
  then show ?case by simp
next
  case (3 l rest s sc w)
  obtain r w1 where d: "deleteIPLockObject l s w = (r, w1)"
    by (cases "deleteIPLockObject l s w")
  then have calls: "deleteCalls w1 = deleteCalls w @ [l]"
    by (auto simp: deleteIPLockObject_def Let_def split: prod.splits option.splits if_splits)
  show ?case
  proof (cases r)
    case (Some e)
    with d "3.prems" have "w' = w1" by simp
    with calls show ?thesis by auto
  next
    case None
    with d "3.prems" have "releaseLocks rest sc w1 = Done (err, sc', w')" by simp
    from "3.IH" [OF d [symmetric] None this] obtain new where
      "deleteCalls w' = deleteCalls w1 @ new" "set new \<subseteq> set rest" by blast
    with calls show ?thesis by auto
  qed
qed

text \<open>
  C5: in a reconciliation of an existing attachment, no call of \<open>deleteIPLockObject\<close>
  made by \<open>analyzeAndRelease\<close> is on a lock whose controller owner UID differs from the
  UID of the attachment, whatever the VNI and the address of the lock.
\<close>

theorem timeSlippers_not_released:
  assumes run: "analyzeAndRelease e ns nm (Some a) nadat sc w = Done (res, sc', w')"
    and slip: "snd (GetOwner l ''NetworkAttachment'') \<noteq> UID a"
  shows "\<exists>new. deleteCalls w' = deleteCalls w @ new \<and> (\<forall>p \<in> set new. Obj p \<noteq> Some l)"
proof (cases "fetchSubnet e ns (Some a)")
  case (SubnetStop r)
  with run have "w' = w" by (simp add: analyzeAndRelease_def)
  then show ?thesis by simp
next
  case SubnetPanic
  with run show ?thesis by (simp add: analyzeAndRelease_def)
next
  case (SubnetGo r)
  show ?thesis
  proof (cases "lockIndexer e nm")
    case None
    with SubnetGo run have "w' = w" by (simp add: analyzeAndRelease_def)
    then show ?thesis by simp
  next
    case (Some ownedObjs)
    obtain b sc1 where
      c: "considerStatusIP e ns nm (Some a) r (foldl (consider' (Some a) r) emptyBins ownedObjs) sc w
            = Done (b, sc1)"
      using run SubnetGo Some
      by (auto simp: analyzeAndRelease_def split: run.splits)
    have "ownedBins (UID a) emptyBins" by (simp add: ownedBins_def emptyBins_def)
    then have ob: "ownedBins (UID a) b"
      using considerStatusIP_owned [OF c] fold_consider_owned by blast
    define rel where "rel = fst (AddListFunc (undesiredLocks b) (snd (chooseRelease (Some a) b)))"
    have sub: "set rel \<subseteq> set (undesiredLocks b) \<union> set (usableLocks b)"
      unfolding rel_def
      using AddListFunc_subset [of "undesiredLocks b" "snd (chooseRelease (Some a) b)"]
        chooseRelease_subset [of "Some a" b] by blast
    obtain err2 sc2 where rl: "releaseLocks rel sc1 w = Done (err2, sc2, w')"
      using run SubnetGo Some c
      by (auto simp: analyzeAndRelease_def Let_def rel_def split: run.splits prod.splits option.splits)
    from releaseLocks_calls [OF rl] obtain new where
      n: "deleteCalls w' = deleteCalls w @ new" "set new \<subseteq> set rel" by blast
    have "\<forall>p \<in> set new. Obj p \<noteq> Some l"
    proof
      fix p assume "p \<in> set new"
      with n sub have "p \<in> set (undesiredLocks b) \<union> set (usableLocks b)" by blast
      with ob obtain l' where "Obj p = Some l'" "snd (GetOwner l' ''NetworkAttachment'') = UID a"
        unfolding ownedBins_def by blast
      with slip show "Obj p \<noteq> Some l" by auto
    qed
    with n show ?thesis by blast
  qed
qed

theorem timeSlippers_not_released_witness:
  "analyzeAndRelease
     (exEnv (Found exAttachment)
        [exLock ''v1-7-10-0-0-5'' ''lock-old'' ''att-0'' 90,
         exLock ''v1-9-10-0-0-6'' ''lock-2'' ''att-1'' 95])
     ''ex'' ''a1'' (Some exAttachment) None [Serve [] (exTime 0)]
     (exWorld exAttachment
        [exLock ''v1-7-10-0-0-5'' ''lock-old'' ''att-0'' 90,
         exLock ''v1-9-10-0-0-6'' ''lock-2'' ''att-1'' 95])
   = Done ((\<lparr>resSubnetName = ''s1'', resSubnetRV = ''3'', desiredVNI = 7,
             desiredBaseU = 0x0A000000, desiredLastU = 0x0A0000FF,
             lockInStatus = zeroParsedLock, lockForStatus = zeroParsedLock,
             resErr = None, resOk = True\<rparr>, None), [],
           (exWorld exAttachment [exLock ''v1-7-10-0-0-5'' ''lock-old'' ''att-0'' 90])
             \<lparr>deleteCalls :=
                [\<lparr>pl_ns = ''ex'', pl_name = ''v1-9-10-0-0-6'', VNI = 9, addrU = 0x0A000006,
                  pl_UID = ''lock-2'', CreationTime = exTime 95,
                  Obj = Some (exLock ''v1-9-10-0-0-6'' ''lock-2'' ''att-1'' 95)\<rparr>]\<rparr>)
   \<and> snd (GetOwner (exLock ''v1-7-10-0-0-5'' ''lock-old'' ''att-0'' 90) ''NetworkAttachment'')
       \<noteq> UID exAttachment"
proof -
  let ?old = "exLock ''v1-7-10-0-0-5'' ''lock-old'' ''att-0'' 90"
  let ?l2 = "exLock ''v1-9-10-0-0-6'' ''lock-2'' ''att-1'' 95"
  let ?p2 = "\<lparr>pl_ns = ''ex'', pl_name = ''v1-9-10-0-0-6'', VNI = 9, addrU = 0x0A000006,
                  pl_UID = ''lock-2'', CreationTime = exTime 95, Obj = Some ?l2\<rparr>"
  have slip: "snd (GetOwner ?old ''NetworkAttachment'') \<noteq> UID exAttachment"
    by (simp add: exLock_def exAttachment_def GetOwner_def)
  have run: "analyzeAndRelease (exEnv (Found exAttachment) [?old, ?l2])
     ''ex'' ''a1'' (Some exAttachment) None [Serve [] (exTime 0)] (exWorld exAttachment [?old, ?l2])
   = Done ((\<lparr>resSubnetName = ''s1'', resSubnetRV = ''3'', desiredVNI = 7,
             desiredBaseU = 0x0A000000, desiredLastU = 0x0A0000FF,
             lockInStatus = zeroParsedLock, lockForStatus = zeroParsedLock,
             resErr = None, resOk = True\<rparr>, None), [],
           (exWorld exAttachment [?old])\<lparr>deleteCalls := [?p2]\<rparr>)"
    by (simp add: eval_defs del: set_filter)
  from timeSlippers_not_released [OF run slip] run slip show ?thesis by simp
qed

section \<open>A lock that already exists\<close>

lemma createLoop_incoherence:
  "createLoop nm att vni a ipl lfs ip sc w = Done ((lfs', ip', Some ErrCacheIncoherence), sc', w')
     \<Longrightarrow> w' = w"
proof (induction nm att vni a ipl lfs ip sc w rule: createLoop.induct)
  case (1 nm att vni a ipl lfs ip w)
  then show ?case by simp
next
  case (2 nm att vni a ipl lfs ip s sc w)
  show ?case
  proof (cases "serveCreate s ipl (locks w)")
    case (Pair res ls)
    show ?thesis
    proof (cases res)
      case (Inr ipl2)
      with Pair "2.prems" show ?thesis by simp
    next
      case (Inl e)
      show ?thesis
      proof (cases "reason e = AlreadyExists")
        case False
        with Pair Inl "2.prems" show ?thesis
          by (auto simp: Let_def split: prod.splits if_splits)
      next
        case True
        show ?thesis
        proof (cases sc)
          case Nil
          with Pair Inl True "2.prems" show ?thesis by simp
        next
          case (Cons g sc2)
          show ?thesis
          proof (cases "serveGet g (Namespace ipl) (Name ipl) (locks w)")
            case (Inr ipl2)
            with Pair Inl True Cons "2.prems" show ?thesis
              by (auto split: if_splits)
          next
            case get: (Inl e2)
            show ?thesis
            proof (cases "reason e2 = NotFound")
              case False
              with Pair Inl True Cons get "2.prems" show ?thesis by auto
            next
              case nf: True
              have "createLoop nm att vni a ipl lfs ip sc2 w
                      = Done ((lfs', ip', Some ErrCacheIncoherence), sc', w')"
                using Pair Inl True Cons get nf "2.prems" by simp
              then show ?thesis
                using "2.IH" [OF Pair [symmetric] Inl True Cons get nf] by simp
            qed
          qed
        qed
      qed
    qed
  qed
qed

lemma pickAndLockAddress_incoherence:
  assumes "pickAndLockAddress ns nm att subnetNm vni subnetBaseU subnetLastU sc w
             = Done ((lfs, ip, Some ErrCacheIncoherence), sc', w')"
  shows "\<exists>s. addrCache w' vni = Some s \<and> addrU lfs \<in> s"
proof -
  define addrMin where "addrMin = (if subnetLastU - subnetBaseU \<ge> 4 then subnetBaseU + 2 else subnetBaseU)"
  define addrMax where "addrMax = (if subnetLastU - subnetBaseU \<ge> 4 then subnetLastU - 1 else subnetLastU)"
  define addrs where "addrs = (case addrCache w vni of None \<Rightarrow> {} | Some s \<Rightarrow> s)"
  obtain addrs' a ok where pick: "AddOneInRange addrs addrMin addrMax = (addrs', a, ok)"
    by (cases "AddOneInRange addrs addrMin addrMax") auto
  have unfolded: "pickAndLockAddress ns nm att subnetNm vni subnetBaseU subnetLastU sc w
      = (if \<not> ok then Done ((zeroParsedLock, [], Some ErrNoAddress), sc,
                               w\<lparr>addrCache := (addrCache w)(vni \<mapsto> addrs')\<rparr>)
         else (case makeIPLockName2 vni (Uint32ToIPv4 a) of
                 None \<Rightarrow> Panic
               | Some lockNm \<Rightarrow>
                   createLoop nm att vni a
                     \<lparr>Namespace = ns, Name = lockNm, UID = [], ResourceVersion = [],
                      CreationTimestamp = zeroTime,
                      OwnerReferences =
                        [\<lparr>Kind = ''NetworkAttachment'', RefName = nm, RefUID = UID att,
                          Controller = Some True\<rparr>],
                      SpecSubnetName = subnetNm\<rparr>
                     \<lparr>pl_ns = ns, pl_name = lockNm, VNI = vni, addrU = a,
                      pl_UID = [], CreationTime = zeroTime, Obj = None\<rparr>
                     (Uint32ToIPv4 a) sc (w\<lparr>addrCache := (addrCache w)(vni \<mapsto> addrs')\<rparr>)))"
    using pick
    by (simp add: pickAndLockAddress_def PickAddress_def Let_def addrMin_def addrMax_def addrs_def
        split: if_splits option.splits)
  have ok: ok using assms unfolded by (auto split: if_splits)
  with assms unfolded obtain lockNm where
      loop: "createLoop nm att vni a
               \<lparr>Namespace = ns, Name = lockNm, UID = [], ResourceVersion = [],
                CreationTimestamp = zeroTime,
                OwnerReferences =
                  [\<lparr>Kind = ''NetworkAttachment'', RefName = nm, RefUID = UID att,
                    Controller = Some True\<rparr>],
                SpecSubnetName = subnetNm\<rparr>
               \<lparr>pl_ns = ns, pl_name = lockNm, VNI = vni, addrU = a,
                pl_UID = [], CreationTime = zeroTime, Obj = None\<rparr>
               (Uint32ToIPv4 a) sc (w\<lparr>addrCache := (addrCache w)(vni \<mapsto> addrs')\<rparr>)
             = Done ((lfs, ip, Some ErrCacheIncoherence), sc', w')"
      by (auto split: option.splits)
  from createLoop_incoherence [OF loop] have w': "w' = w\<lparr>addrCache := (addrCache w)(vni \<mapsto> addrs')\<rparr>" .
  from createLoop_result [OF loop] have a: "addrU lfs = a" by simp
  from AddOneInRange_ok [of addrs addrMin addrMax addrs' a] pick ok have "a \<in> addrs'" by simp
  with w' a show ?thesis by simp
qed

text \<open>
  C4: when \<open>Create\<close> fails with \<open>AlreadyExists\<close>, the loop of \<open>pickAndLockAddress\<close>
  gets the lock: a lock whose controller owner is this attachment (name and UID) is taken
  with no error; when the \<open>Get\<close> answers \<open>NotFound\<close> the \<open>Create\<close> is tried again;
  a lock of another owner gives the error of cache incoherence, with the world as it was,
  so the picked address stays in the cache.
\<close>

theorem createLoop_AlreadyExists:
  assumes create: "serveCreate s ipl (locks w) = (Inl err, ls)"
    and exists: "reason err = AlreadyExists"
  shows "(\<forall>ipl2. serveGet g (Namespace ipl) (Name ipl) (locks w) = Inr ipl2
              \<and> GetOwner ipl2 ''NetworkAttachment'' = (nm, UID att) \<longrightarrow>
            createLoop nm att vni a ipl lfs ip (s # g # sc) w
              = Done ((lockedBy lfs ipl2, ip, None), sc, w))
       \<and> (\<forall>err2. serveGet g (Namespace ipl) (Name ipl) (locks w) = Inl err2
              \<and> reason err2 = NotFound \<longrightarrow>
            createLoop nm att vni a ipl lfs ip (s # g # sc) w
              = createLoop nm att vni a ipl lfs ip sc w)
       \<and> (\<forall>ipl2. serveGet g (Namespace ipl) (Name ipl) (locks w) = Inr ipl2
              \<and> GetOwner ipl2 ''NetworkAttachment'' \<noteq> (nm, UID att) \<longrightarrow>
            createLoop nm att vni a ipl lfs ip (s # g # sc) w
              = Done ((lfs, ip, Some ErrCacheIncoherence), sc, w))
       \<and> (\<forall>ns subnetNm subnetBaseU subnetLastU sc0 w0 lfs' ip' sc' w'.
            pickAndLockAddress ns nm att subnetNm vni subnetBaseU subnetLastU sc0 w0
              = Done ((lfs', ip', Some ErrCacheIncoherence), sc', w') \<longrightarrow>
            (\<exists>addrs. addrCache w' vni = Some addrs \<and> addrU lfs' \<in> addrs))"
  using create exists pickAndLockAddress_incoherence
  by auto

theorem createLoop_AlreadyExists_witness:
  "createLoop ''a1'' exAttachment 7 0x0A000002
     ((exLock ''v1-7-10-0-0-2'' [] ''att-1'' 0)\<lparr>ResourceVersion := []\<rparr>)
     \<lparr>pl_ns = ''ex'', pl_name = ''v1-7-10-0-0-2'', VNI = 7, addrU = 0x0A000002,
      pl_UID = [], CreationTime = zeroTime, Obj = None\<rparr>
     (IPv4 10 0 0 2) [Serve ''u'' (exTime 101), Serve [] (exTime 0)]
     (exWorld exAttachment [exLock ''v1-7-10-0-0-2'' ''lock-1'' ''att-1'' 99])
   = Done ((\<lparr>pl_ns = ''ex'', pl_name = ''v1-7-10-0-0-2'', VNI = 7, addrU = 0x0A000002,
             pl_UID = ''lock-1'', CreationTime = exTime 99,
             Obj = Some (exLock ''v1-7-10-0-0-2'' ''lock-1'' ''att-1'' 99)\<rparr>,
            IPv4 10 0 0 2, None), [],
           exWorld exAttachment [exLock ''v1-7-10-0-0-2'' ''lock-1'' ''att-1'' 99])
   \<and> createLoop ''a1'' exAttachment 7 0x0A000002
     ((exLock ''v1-7-10-0-0-2'' [] ''att-1'' 0)\<lparr>ResourceVersion := []\<rparr>)
     \<lparr>pl_ns = ''ex'', pl_name = ''v1-7-10-0-0-2'', VNI = 7, addrU = 0x0A000002,
      pl_UID = [], CreationTime = zeroTime, Obj = None\<rparr>
     (IPv4 10 0 0 2)
     [Fail (serverError AlreadyExists), Serve [] (exTime 0), Serve ''lock-1'' (exTime 101)]
     (exWorld exAttachment [])
   = Done ((\<lparr>pl_ns = ''ex'', pl_name = ''v1-7-10-0-0-2'', VNI = 7, addrU = 0x0A000002,
             pl_UID = ''lock-1'', CreationTime = exTime 101,
             Obj = Some ((exLock ''v1-7-10-0-0-2'' ''lock-1'' ''att-1'' 101)\<lparr>ResourceVersion := []\<rparr>)\<rparr>,
            IPv4 10 0 0 2, None), [],
           exWorld exAttachment [(exLock ''v1-7-10-0-0-2'' ''lock-1'' ''att-1'' 101)\<lparr>ResourceVersion := []\<rparr>])
   \<and> createLoop ''a1'' exAttachment 7 0x0A000002
     ((exLock ''v1-7-10-0-0-2'' [] ''att-1'' 0)\<lparr>ResourceVersion := []\<rparr>)
     \<lparr>pl_ns = ''ex'', pl_name = ''v1-7-10-0-0-2'', VNI = 7, addrU = 0x0A000002,
      pl_UID = [], CreationTime = zeroTime, Obj = None\<rparr>
     (IPv4 10 0 0 2) [Serve ''u'' (exTime 101), Serve [] (exTime 0)]
     (exWorld exAttachment [exLock ''v1-7-10-0-0-2'' ''lock-9'' ''att-9'' 99])
   = Done ((\<lparr>pl_ns = ''ex'', pl_name = ''v1-7-10-0-0-2'', VNI = 7, addrU = 0x0A000002,
             pl_UID = [], CreationTime = zeroTime, Obj = None\<rparr>,
            IPv4 10 0 0 2, Some ErrCacheIncoherence), [],
           exWorld exAttachment [exLock ''v1-7-10-0-0-2'' ''lock-9'' ''att-9'' 99])
   \<and> pickAndLockAddress ''ex'' ''a1'' exAttachment ''s1'' 7 0x0A000000 0x0A0000FF
       [Serve ''u'' (exTime 101), Serve [] (exTime 0)]
       (exWorld exAttachment [exLock ''v1-7-10-0-0-2'' ''lock-9'' ''att-9'' 99])
     = Done ((\<lparr>pl_ns = ''ex'', pl_name = ''v1-7-10-0-0-2'', VNI = 7, addrU = 0x0A000002,
               pl_UID = [], CreationTime = zeroTime, Obj = None\<rparr>,
              Uint32ToIPv4 0x0A000002, Some ErrCacheIncoherence), [],
             (exWorld exAttachment [exLock ''v1-7-10-0-0-2'' ''lock-9'' ''att-9'' 99])
               \<lparr>addrCache := [7 \<mapsto> {0x0A000002}]\<rparr>)
   \<and> (\<exists>addrs. addrCache
                  ((exWorld exAttachment [exLock ''v1-7-10-0-0-2'' ''lock-9'' ''att-9'' 99])
                     \<lparr>addrCache := [7 \<mapsto> {0x0A000002}]\<rparr>) 7 = Some addrs
               \<and> 0x0A000002 \<in> addrs)"
proof -
  let ?ipl = "(exLock ''v1-7-10-0-0-2'' [] ''att-1'' 0)\<lparr>ResourceVersion := []\<rparr>"
  let ?lfs = "\<lparr>pl_ns = ''ex'', pl_name = ''v1-7-10-0-0-2'', VNI = 7, addrU = 0x0A000002,
      pl_UID = [], CreationTime = zeroTime, Obj = None\<rparr>"
  let ?ours = "exLock ''v1-7-10-0-0-2'' ''lock-1'' ''att-1'' 99"
  let ?theirs = "exLock ''v1-7-10-0-0-2'' ''lock-9'' ''att-9'' 99"
  let ?AE = "serverError AlreadyExists"
  have ae: "reason ?AE = AlreadyExists" by (simp add: serverError_def)
  have c1: "serveCreate (Serve ''u'' (exTime 101)) ?ipl (locks (exWorld exAttachment [?ours]))
              = (Inl ?AE, [?ours])"
    by (simp add: serveCreate_def findLock_def exWorld_def exLock_def)
  have g1: "serveGet (Serve [] (exTime 0)) (Namespace ?ipl) (Name ?ipl) (locks (exWorld exAttachment [?ours]))
              = Inr ?ours \<and> GetOwner ?ours ''NetworkAttachment'' = (''a1'', UID exAttachment)"
    by (simp add: serveGet_def findLock_def exWorld_def exLock_def GetOwner_def exAttachment_def)
  have r1: "createLoop ''a1'' exAttachment 7 0x0A000002 ?ipl ?lfs (IPv4 10 0 0 2)
              [Serve ''u'' (exTime 101), Serve [] (exTime 0)] (exWorld exAttachment [?ours])
            = Done ((lockedBy ?lfs ?ours, IPv4 10 0 0 2, None), [], exWorld exAttachment [?ours])"
    using createLoop_AlreadyExists [OF c1 ae, of "Serve [] (exTime 0)" "''a1''" exAttachment 7 "0x0A000002"
        ?lfs "IPv4 10 0 0 2" "[]"] g1
    by blast
  have c2: "serveCreate (Fail ?AE) ?ipl (locks (exWorld exAttachment [])) = (Inl ?AE, [])"
    by (simp add: serveCreate_def exWorld_def)
  have g2: "serveGet (Serve [] (exTime 0)) (Namespace ?ipl) (Name ?ipl) (locks (exWorld exAttachment []))
              = Inl (serverError NotFound) \<and> reason (serverError NotFound) = NotFound"
    by (simp add: serveGet_def findLock_def exWorld_def serverError_def)
  have r2: "createLoop ''a1'' exAttachment 7 0x0A000002 ?ipl ?lfs (IPv4 10 0 0 2)
              [Fail ?AE, Serve [] (exTime 0), Serve ''lock-1'' (exTime 101)] (exWorld exAttachment [])
            = createLoop ''a1'' exAttachment 7 0x0A000002 ?ipl ?lfs (IPv4 10 0 0 2)
              [Serve ''lock-1'' (exTime 101)] (exWorld exAttachment [])"
    using createLoop_AlreadyExists [OF c2 ae, of "Serve [] (exTime 0)" "''a1''" exAttachment 7 "0x0A000002"
        ?lfs "IPv4 10 0 0 2" "[Serve ''lock-1'' (exTime 101)]"] g2
    by blast
  have c3: "serveCreate (Serve ''u'' (exTime 101)) ?ipl (locks (exWorld exAttachment [?theirs]))
              = (Inl ?AE, [?theirs])"
    by (simp add: serveCreate_def findLock_def exWorld_def exLock_def)
  have g3: "serveGet (Serve [] (exTime 0)) (Namespace ?ipl) (Name ?ipl) (locks (exWorld exAttachment [?theirs]))
              = Inr ?theirs \<and> GetOwner ?theirs ''NetworkAttachment'' \<noteq> (''a1'', UID exAttachment)"
    by (simp add: serveGet_def findLock_def exWorld_def exLock_def GetOwner_def exAttachment_def)
  have r3: "createLoop ''a1'' exAttachment 7 0x0A000002 ?ipl ?lfs (IPv4 10 0 0 2)
              [Serve ''u'' (exTime 101), Serve [] (exTime 0)] (exWorld exAttachment [?theirs])
            = Done ((?lfs, IPv4 10 0 0 2, Some ErrCacheIncoherence), [], exWorld exAttachment [?theirs])"
    using createLoop_AlreadyExists [OF c3 ae, of "Serve [] (exTime 0)" "''a1''" exAttachment 7 "0x0A000002"
        ?lfs "IPv4 10 0 0 2" "[]"] g3
    by blast
  have fresh: "createLoop ''a1'' exAttachment 7 0x0A000002 ?ipl ?lfs (IPv4 10 0 0 2)
              [Serve ''lock-1'' (exTime 101)] (exWorld exAttachment [])
       = Done ((lockedBy ?lfs (?ipl\<lparr>UID := ''lock-1'', CreationTimestamp := exTime 101\<rparr>), IPv4 10 0 0 2, None),
               [], exWorld exAttachment [?ipl\<lparr>UID := ''lock-1'', CreationTimestamp := exTime 101\<rparr>])"
    by (simp add: serveCreate_def findLock_def exWorld_def Let_def)
  have r4: "pickAndLockAddress ''ex'' ''a1'' exAttachment ''s1'' 7 0x0A000000 0x0A0000FF
       [Serve ''u'' (exTime 101), Serve [] (exTime 0)] (exWorld exAttachment [?theirs])
     = Done ((?lfs, Uint32ToIPv4 0x0A000002, Some ErrCacheIncoherence), [],
             (exWorld exAttachment [?theirs])\<lparr>addrCache := [7 \<mapsto> {0x0A000002}]\<rparr>)"
    by (simp add: eval_defs)
  have kept: "\<exists>addrs. addrCache
                  ((exWorld exAttachment [?theirs])\<lparr>addrCache := [7 \<mapsto> {0x0A000002}]\<rparr>) 7
                = Some addrs \<and> 0x0A000002 \<in> addrs"
    using createLoop_AlreadyExists [OF c3 ae, of "Serve [] (exTime 0)" "''a1''" exAttachment 7 "0x0A000002"
        ?lfs "IPv4 10 0 0 2" "[]"] r4
    by (metis ParsedLock.select_convs(4))
  show ?thesis
    unfolding r1 r2 r3 fresh r4
    using kept by (simp add: lockedBy_def exLock_def exWorld_def)
qed

section \<open>The invariant of a reconciliation\<close>

subsection \<open>Owners, parsed locks and the bins\<close>









subsection \<open>The lock of the address in the status\<close>








lemma isServe_simps [simp]: "isServe (Serve u t)" "\<not> isServe (Fail e)"
  by (simp_all add: isServe_def)



subsection \<open>The release set\<close>











subsection \<open>Locking and publishing\<close>











end
